theory Spec2Isabelle
  imports Complex_Main
begin

section \<open>Spin-spin correlation of tlibs2/magdyn (correlation.h)\<close>

text \<open>
  The two member functions of \<^verbatim>\<open>correlation.h\<close>, \<^verbatim>\<open>CalcCorrelationsFromHamiltonian\<close>
  and \<^verbatim>\<open>CalcIntensities\<close>, are embedded as HOL functions. The template parameters
  \<^verbatim>\<open>t_real\<close> and \<^verbatim>\<open>t_cplx\<close> are instantiated with the exact fields \<^typ>\<open>real\<close> and
  \<^typ>\<open>complex\<close>; rounding is not modelled. The member variables the functions read
  are fields of a configuration record, the band list that they mutate in place is passed
  in and returned, and the line written to \<^verbatim>\<open>std::cerr\<close> is a returned list of messages.
\<close>

subsection \<open>Matrices and vectors\<close>

text \<open>
  A dynamic matrix (\<^verbatim>\<open>t_mat\<close>): its two sizes and its entries. Vectors
  (\<^verbatim>\<open>t_vec\<close>, \<^verbatim>\<open>t_vec_real\<close>) are lists. An entry outside the sizes is never read
  for well-formed input (the C++ has undefined behaviour there).
\<close>

record 'a mat =
  size1 :: nat
  size2 :: nat
  elem :: "nat \<Rightarrow> nat \<Rightarrow> 'a"

type_synonym t_mat = "complex mat"
type_synonym t_mat_real = "real mat"
type_synonym t_vec = "complex list"
type_synonym t_vec_real = "real list"

text \<open>
  Modelled from the spec: the dense-matrix capability set of \<^verbatim>\<open>maths.h\<close> (creation,
  zero matrix, Hermitian conjugate, product, trace, scaling, sub-matrix assignment,
  inner product, norm), which is not under src/. Each operation has its textbook meaning.
\<close>

definition zero :: "nat \<Rightarrow> nat \<Rightarrow> t_mat" where
  "zero n m = \<lparr>size1 = n, size2 = m, elem = (\<lambda>i j. 0)\<rparr>"

definition create :: "nat \<Rightarrow> nat \<Rightarrow> t_mat" where
  "create n m = \<lparr>size1 = n, size2 = m, elem = (\<lambda>i j. 0)\<rparr>"

definition set_elem :: "'a mat \<Rightarrow> nat \<Rightarrow> nat \<Rightarrow> 'a \<Rightarrow> 'a mat" where
  "set_elem m i j v = m\<lparr>elem := (elem m)(i := (elem m i)(j := v))\<rparr>"

definition herm :: "t_mat \<Rightarrow> t_mat" where
  "herm m = \<lparr>size1 = size2 m, size2 = size1 m, elem = (\<lambda>i j. cnj (elem m j i))\<rparr>"

definition mat_mul :: "t_mat \<Rightarrow> t_mat \<Rightarrow> t_mat" where
  "mat_mul a b = \<lparr>size1 = size1 a, size2 = size2 b,
     elem = (\<lambda>i j. sum_list (map (\<lambda>k. elem a i k * elem b k j) [0..<size2 a]))\<rparr>"

definition trace :: "t_mat \<Rightarrow> complex" where
  "trace m = sum_list (map (\<lambda>i. elem m i i) [0..<size1 m])"

definition smul :: "t_mat \<Rightarrow> complex \<Rightarrow> t_mat" where
  "smul m c = m\<lparr>elem := (\<lambda>i j. elem m i j * c)\<rparr>"

definition set_submat :: "t_mat \<Rightarrow> t_mat \<Rightarrow> nat \<Rightarrow> nat \<Rightarrow> t_mat" where
  "set_submat m sub row col =
     m\<lparr>elem := (\<lambda>i j.
        if row \<le> i \<and> i < min (size1 m) (row + size1 sub) \<and>
           col \<le> j \<and> j < min (size2 m) (col + size2 sub)
        then elem sub (i - row) (j - col) else elem m i j)\<rparr>"

definition inner_real :: "t_vec_real \<Rightarrow> t_vec_real \<Rightarrow> real" where
  "inner_real v w = sum_list (map (\<lambda>i. v ! i * w ! i) [0..<length v])"

definition vec_sub :: "t_vec_real \<Rightarrow> t_vec_real \<Rightarrow> t_vec_real" where
  "vec_sub v w = map (\<lambda>i. v ! i - w ! i) [0..<length v]"

definition norm_real :: "t_vec_real \<Rightarrow> real" where
  "norm_real v = sqrt (inner_real v v)"

definition mat_vec_real :: "t_mat_real \<Rightarrow> t_vec_real \<Rightarrow> t_vec_real" where
  "mat_vec_real m v =
     map (\<lambda>i. sum_list (map (\<lambda>k. elem m i k * v ! k) [0..<size2 m])) [0..<size1 m]"

text \<open>
  Modelled from the spec: \<^verbatim>\<open>tl2::ortho_projector(Q, false)\<close> of \<^verbatim>\<open>maths.h\<close> (not under
  src/), "the orthogonal projector onto the plane perpendicular to Q (a 3x3 real
  operator)": the unit matrix minus the outer product of the normalised vector with
  itself.
\<close>

definition ortho_projector :: "t_vec_real \<Rightarrow> bool \<Rightarrow> t_mat" where
  "ortho_projector vec is_normalised =
     (let len = (if is_normalised then 1 else norm_real vec)
      in \<lparr>size1 = length vec, size2 = length vec,
          elem = (\<lambda>i j. (if i = j then 1 else 0)
                    - complex_of_real (vec ! i / len) * complex_of_real (vec ! j / len))\<rparr>)"

subsection \<open>The data model of magdyn.h\<close>

text \<open>A magnetic site, with the fields that \<^verbatim>\<open>correlation.h\<close> reads.\<close>

record MagneticSite =
  pos_calc :: t_vec_real
  spin_mag_calc :: real
  ge_trafo_plane_calc :: t_vec
  ge_trafo_plane_conj_calc :: t_vec

text \<open>
  One band. A record built with designated initialisers for \<^verbatim>\<open>E\<close>, \<^verbatim>\<open>S\<close> and
  \<^verbatim>\<open>S_perp\<close> has its remaining members value-initialised (zero).
\<close>

record EnergyAndWeight =
  E :: real
  S :: t_mat
  S_sum :: complex
  weight_full :: real
  S_perp :: t_mat
  S_perp_sum :: complex
  weight :: real

type_synonym EnergiesAndWeights = "EnergyAndWeight list"

text \<open>
  The members of the \<^verbatim>\<open>MagDyn\<close> object that the two functions read. The expression
  parser \<^verbatim>\<open>m_magffact\<close> has an abstract state \<^typ>\<open>'p\<close>.
\<close>

record 'p MagDyn =
  sites :: "MagneticSite list"
  m_phase_sign :: real
  m_temperature :: real
  m_bose_cutoff :: real
  m_magffact_formula :: string
  m_magffact :: 'p
  m_xtalB :: t_mat_real

definition GetMagneticSitesCount :: "'p MagDyn \<Rightarrow> nat" where
  "GetMagneticSitesCount md = length (sites md)"

definition GetMagneticSite :: "'p MagDyn \<Rightarrow> nat \<Rightarrow> MagneticSite" where
  "GetMagneticSite md i = sites md ! i"

subsection \<open>CalcCorrelationsFromHamiltonian\<close>

text \<open>
  Modelled from the spec: \<^verbatim>\<open>tl2::get_perm\<close> of \<^verbatim>\<open>algos.h\<close> (not under src/), the
  EnergySorter: "a permutation of band indices" ordered by the comparator it is given.
  The indices are inserted one by one; among indices that compare equal the original
  order is kept.
\<close>

fun insert_by :: "(nat \<Rightarrow> nat \<Rightarrow> bool) \<Rightarrow> nat \<Rightarrow> nat list \<Rightarrow> nat list" where
  "insert_by comp_func x [] = [x]"
| "insert_by comp_func x (y # ys) =
     (if comp_func x y then x # y # ys else y # insert_by comp_func x ys)"

definition get_perm :: "nat \<Rightarrow> (nat \<Rightarrow> nat \<Rightarrow> bool) \<Rightarrow> nat list" where
  "get_perm num_elems comp_func = foldr (insert_by comp_func) [0..<num_elems] []"

text \<open>
  Modelled from the spec: \<^verbatim>\<open>tl2::reorder\<close> and the \<^verbatim>\<open>tl2::create\<close> that takes a list of
  vectors (\<^verbatim>\<open>algos.h\<close>, \<^verbatim>\<open>maths.h\<close>, not under src/): "reorder eigenvectors per
  EnergySorter; assemble them as columns of V".
\<close>

definition reorder :: "'a list \<Rightarrow> nat list \<Rightarrow> 'a list" where
  "reorder vec perm = map (\<lambda>i. vec ! (perm ! i)) [0..<length vec]"

definition create_cols :: "t_vec list \<Rightarrow> t_mat" where
  "create_cols lst =
     \<lparr>size1 = (case lst of [] \<Rightarrow> 0 | v # _ \<Rightarrow> length v), size2 = length lst,
      elem = (\<lambda>i j. lst ! j ! i)\<rparr>"

text \<open>The line that the function writes to \<^verbatim>\<open>std::cerr\<close>, with the vector it prints.\<close>

datatype message = Inversion_failed t_vec_real

text \<open>The loop that replaces each diagonal entry of \<^verbatim>\<open>E_sqrt\<close> by its square root.\<close>

definition sqrt_diag :: "t_mat \<Rightarrow> t_mat" where
  "sqrt_diag m =
     fold (\<lambda>i E_sqrt. set_elem E_sqrt i i (csqrt (elem E_sqrt i i))) [0..<size1 m] m"

text \<open>
  The body of the loop over the site pairs: the pre-factors and the four matrix elements
  of equation (44).
\<close>

definition site_pair_step ::
  "'p MagDyn \<Rightarrow> t_vec_real \<Rightarrow> nat \<Rightarrow> nat \<Rightarrow> nat \<Rightarrow> nat
   \<Rightarrow> t_mat \<times> t_mat \<times> t_mat \<times> t_mat \<Rightarrow> t_mat \<times> t_mat \<times> t_mat \<times> t_mat" where
  "site_pair_step md Qvec x_idx y_idx i j Ms =
     (case Ms of (M00, M0N, MN0, MNN) \<Rightarrow>
        let s_i = GetMagneticSite md i;
            s_j = GetMagneticSite md j;
            u_i = ge_trafo_plane_calc s_i;
            u_j = ge_trafo_plane_calc s_j;
            uc_i = ge_trafo_plane_conj_calc s_i;
            uc_j = ge_trafo_plane_conj_calc s_j;
            S_mag = sqrt (spin_mag_calc s_i * spin_mag_calc s_j);
            phase = exp (- complex_of_real (m_phase_sign md) * \<i> * complex_of_real (2 * pi)
                         * complex_of_real (inner_real (vec_sub (pos_calc s_j) (pos_calc s_i)) Qvec))
        in (set_elem M00 i j (phase * complex_of_real S_mag * u_i ! x_idx * uc_j ! y_idx),
            set_elem M0N i j (phase * complex_of_real S_mag * u_i ! x_idx * u_j ! y_idx),
            set_elem MN0 i j (phase * complex_of_real S_mag * uc_i ! x_idx * uc_j ! y_idx),
            set_elem MNN i j (phase * complex_of_real S_mag * uc_i ! x_idx * u_j ! y_idx)))"

definition site_blocks ::
  "'p MagDyn \<Rightarrow> t_vec_real \<Rightarrow> nat \<Rightarrow> nat \<Rightarrow> t_mat \<times> t_mat \<times> t_mat \<times> t_mat" where
  "site_blocks md Qvec x_idx y_idx =
     (let N = GetMagneticSitesCount md
      in fold (\<lambda>i Ms. fold (\<lambda>j Ms. site_pair_step md Qvec x_idx y_idx i j Ms) [0..<N] Ms)
           [0..<N] (create N N, create N N, create N N, create N N))"

text \<open>Equation (47): the four blocks as the quadrants of \<^verbatim>\<open>M\<close>.\<close>

definition coupling_matrix :: "'p MagDyn \<Rightarrow> t_vec_real \<Rightarrow> nat \<Rightarrow> nat \<Rightarrow> t_mat" where
  "coupling_matrix md Qvec x_idx y_idx =
     (let N = GetMagneticSitesCount md
      in case site_blocks md Qvec x_idx y_idx of (M00, M0N, MN0, MNN) \<Rightarrow>
           set_submat (set_submat (set_submat (set_submat (create (2 * N) (2 * N))
             M00 0 0) M0N 0 N) MN0 N 0) MNN N N)"

text \<open>The loop over the bands that adds the diagonal of \<^verbatim>\<open>M_trafo\<close> to \<^verbatim>\<open>S(x_idx, y_idx)\<close>.\<close>

definition add_diag ::
  "nat \<Rightarrow> nat \<Rightarrow> t_mat \<Rightarrow> nat \<Rightarrow> EnergiesAndWeights \<Rightarrow> EnergiesAndWeights" where
  "add_diag x_idx y_idx M_trafo M_size1 energies_and_correlations =
     fold (\<lambda>i bs. bs[i := (bs ! i)\<lparr>S := set_elem (S (bs ! i)) x_idx y_idx
                      (elem (S (bs ! i)) x_idx y_idx
                        + elem M_trafo i i / complex_of_real (real M_size1))\<rparr>])
       [0..<length energies_and_correlations] energies_and_correlations"

definition correlation_step ::
  "'p MagDyn \<Rightarrow> t_vec_real \<Rightarrow> t_mat \<Rightarrow> t_mat \<Rightarrow> nat \<Rightarrow> nat
   \<Rightarrow> EnergiesAndWeights \<Rightarrow> EnergiesAndWeights" where
  "correlation_step md Qvec trafo trafo_herm x_idx y_idx energies_and_correlations =
     (let M = coupling_matrix md Qvec x_idx y_idx;
          M_trafo = mat_mul (mat_mul trafo_herm M) trafo
      in add_diag x_idx y_idx M_trafo (size1 M) energies_and_correlations)"

text \<open>
  The function. \<^verbatim>\<open>tl2::inv\<close> (\<^verbatim>\<open>maths.h\<close>, not under src/) is the parameter \<open>tl2_inv\<close>: it
  returns a matrix and the flag that tells whether the inversion succeeded. The result is
  the band list after the call and the lines written to \<^verbatim>\<open>std::cerr\<close>.
\<close>

definition CalcCorrelationsFromHamiltonian ::
  "(t_mat \<Rightarrow> t_mat \<times> bool) \<Rightarrow> 'p MagDyn \<Rightarrow> EnergiesAndWeights \<Rightarrow> t_mat \<Rightarrow> t_mat \<Rightarrow> t_mat
   \<Rightarrow> t_vec_real \<Rightarrow> t_vec list \<Rightarrow> EnergiesAndWeights \<times> message list" where
  "CalcCorrelationsFromHamiltonian tl2_inv md energies_and_correlations H_mat chol_mat g_sign
       Qvec evecs =
     (let N = GetMagneticSitesCount md
      in if N = 0 then (energies_and_correlations, [])
         else
           let sorting = get_perm (length energies_and_correlations)
                 (\<lambda>idx1 idx2. E (energies_and_correlations ! idx1)
                                \<ge> E (energies_and_correlations ! idx2));
               evec_mat = create_cols (reorder evecs sorting);
               evec_mat_herm = herm evec_mat;
               energy_mat = mat_mul (mat_mul evec_mat_herm H_mat) evec_mat;
               E_sqrt = sqrt_diag (mat_mul g_sign energy_mat);
               bands = map (\<lambda>i. \<lparr>E = Re (elem energy_mat i i), S = zero 3 3, S_sum = 0,
                                   weight_full = 0, S_perp = zero 3 3, S_perp_sum = 0,
                                   weight = 0\<rparr>) [0..<size1 energy_mat];
               (chol_inv, inv_ok) = tl2_inv chol_mat;
               cerr = (if \<not> inv_ok then [Inversion_failed Qvec] else []);
               trafo = mat_mul (mat_mul chol_inv evec_mat) E_sqrt;
               trafo_herm = herm trafo
           in (fold (\<lambda>x_idx bs.
                  fold (\<lambda>y_idx bs. correlation_step md Qvec trafo trafo_herm x_idx y_idx bs)
                    [0..<3] bs) [0..<3] bands,
               cerr))"

subsection \<open>CalcIntensities\<close>

text \<open>
  The expression parser of \<^verbatim>\<open>expr.h\<close> is not under src/. Its two operations are
  parameters: \<^verbatim>\<open>register_var\<close> returns the parser with the variable set, and
  \<^verbatim>\<open>eval\<close> is the throwing evaluation (\<open>None\<close> when it raises).
\<close>

record 'p ExprParser =
  register_var :: "'p \<Rightarrow> string \<Rightarrow> real \<Rightarrow> 'p"
  eval :: "'p \<Rightarrow> complex option"
  fallback :: complex

text \<open>
  Modelled from the spec: \<^verbatim>\<open>eval_noexcept\<close> of \<^verbatim>\<open>expr.h\<close> (not under src/), the
  "non-throwing evaluation contract (malformed/undefined expressions must not raise:
  they yield a defined fallback)".
\<close>

definition eval_noexcept :: "'p ExprParser \<Rightarrow> 'p \<Rightarrow> complex" where
  "eval_noexcept ops p = (case eval ops p of Some v \<Rightarrow> v | None \<Rightarrow> fallback ops)"

text \<open>
  The body of the loop over the bands, in the order of the source: the Bose factor, the
  form factor, the projector and the weights. It updates the band in place and the local
  copy \<^verbatim>\<open>magffact\<close> of the parser. \<^verbatim>\<open>bose_cutoff\<close> (\<^verbatim>\<open>phys.h\<close>, not under src/)
  is a parameter.
\<close>

definition bose_step ::
  "(real \<Rightarrow> real \<Rightarrow> real \<Rightarrow> real) \<Rightarrow> 'p MagDyn \<Rightarrow> EnergyAndWeight \<Rightarrow> t_mat" where
  "bose_step bose_cutoff md E_and_S =
     (if m_temperature md \<ge> 0
      then smul (S E_and_S)
             (complex_of_real (bose_cutoff (E E_and_S) (m_temperature md) (m_bose_cutoff md)))
      else S E_and_S)"

definition formfactor_step ::
  "'p ExprParser \<Rightarrow> 'p MagDyn \<Rightarrow> t_vec_real \<Rightarrow> 'p \<Rightarrow> t_mat \<Rightarrow> 'p \<times> t_mat" where
  "formfactor_step ops md Q_rlu magffact S1 =
     (if m_magffact_formula md \<noteq> ''''
      then (let Q_invA = mat_vec_real (m_xtalB md) Q_rlu;
                Q_abs = norm_real Q_invA;
                magffact1 = register_var ops magffact ''Q'' Q_abs;
                ffact = Re (eval_noexcept ops magffact1)
            in (magffact1, smul S1 (complex_of_real ffact)))
      else (magffact, S1))"

definition intensity_step ::
  "(real \<Rightarrow> real \<Rightarrow> real \<Rightarrow> real) \<Rightarrow> 'p ExprParser \<Rightarrow> 'p MagDyn \<Rightarrow> t_vec_real
   \<Rightarrow> 'p \<Rightarrow> EnergyAndWeight \<Rightarrow> 'p \<times> EnergyAndWeight" where
  "intensity_step bose_cutoff ops md Q_rlu magffact E_and_S =
     (let S1 = bose_step bose_cutoff md E_and_S;
          (magffact', S2) = formfactor_step ops md Q_rlu magffact S1;
          proj_neutron = ortho_projector Q_rlu False;
          Sp = mat_mul (mat_mul proj_neutron S2) proj_neutron;
          Ssum = trace S2;
          Spsum = trace Sp
      in (magffact',
          E_and_S\<lparr>S := S2, S_perp := Sp, S_sum := Ssum, S_perp_sum := Spsum,
                  weight_full := \<bar>Re Ssum\<bar>, weight := \<bar>Re Spsum\<bar>\<rparr>))"

fun intensity_loop ::
  "(real \<Rightarrow> real \<Rightarrow> real \<Rightarrow> real) \<Rightarrow> 'p ExprParser \<Rightarrow> 'p MagDyn \<Rightarrow> t_vec_real
   \<Rightarrow> 'p \<Rightarrow> EnergiesAndWeights \<Rightarrow> EnergiesAndWeights" where
  "intensity_loop bose_cutoff ops md Q_rlu magffact [] = []"
| "intensity_loop bose_cutoff ops md Q_rlu magffact (E_and_S # rest) =
     (let (magffact', E_and_S') = intensity_step bose_cutoff ops md Q_rlu magffact E_and_S
      in E_and_S' # intensity_loop bose_cutoff ops md Q_rlu magffact' rest)"

definition CalcIntensities ::
  "(real \<Rightarrow> real \<Rightarrow> real \<Rightarrow> real) \<Rightarrow> 'p ExprParser \<Rightarrow> 'p MagDyn \<Rightarrow> t_vec_real
   \<Rightarrow> EnergiesAndWeights \<Rightarrow> EnergiesAndWeights" where
  "CalcIntensities bose_cutoff ops md Q_rlu energies_and_correlations =
     intensity_loop bose_cutoff ops md Q_rlu (m_magffact md) energies_and_correlations"

text \<open>
  The state of the local parser when the loop reaches band \<open>k\<close>: the variable
  \<^verbatim>\<open>Q\<close> has been registered once for each earlier band (never, with an empty formula).
\<close>

definition next_parser :: "'p ExprParser \<Rightarrow> 'p MagDyn \<Rightarrow> t_vec_real \<Rightarrow> 'p \<Rightarrow> 'p" where
  "next_parser ops md Q_rlu p =
     (if m_magffact_formula md \<noteq> ''''
      then register_var ops p ''Q'' (norm_real (mat_vec_real (m_xtalB md) Q_rlu))
      else p)"

definition parser_at :: "'p ExprParser \<Rightarrow> 'p MagDyn \<Rightarrow> t_vec_real \<Rightarrow> nat \<Rightarrow> 'p" where
  "parser_at ops md Q_rlu k = (next_parser ops md Q_rlu ^^ k) (m_magffact md)"

subsection \<open>Quantities named by the specification\<close>

text \<open>
  The pre-factor of a site pair in the words of the specification: the phase factor
  \<open>exp(-sign i 2 pi Q (r_j - r_i))\<close> times the geometric mean \<open>sqrt(S_i S_j)\<close> of the spin
  magnitudes. \<open>fill\<close> and \<open>fill_row\<close> describe a matrix whose leading entries have
  been assigned by a loop.
\<close>

definition pair_prefactor :: "'p MagDyn \<Rightarrow> t_vec_real \<Rightarrow> nat \<Rightarrow> nat \<Rightarrow> complex" where
  "pair_prefactor md Qvec i j =
     exp (- complex_of_real (m_phase_sign md) * \<i> * complex_of_real (2 * pi)
          * complex_of_real (inner_real (vec_sub (pos_calc (sites md ! j)) (pos_calc (sites md ! i))) Qvec))
     * complex_of_real (sqrt (spin_mag_calc (sites md ! i) * spin_mag_calc (sites md ! j)))"

definition fill :: "t_mat \<Rightarrow> nat \<Rightarrow> nat \<Rightarrow> (nat \<Rightarrow> nat \<Rightarrow> complex) \<Rightarrow> t_mat" where
  "fill a n m f = a\<lparr>elem := (\<lambda>i j. if i < n \<and> j < m then f i j else elem a i j)\<rparr>"

definition fill_row :: "t_mat \<Rightarrow> nat \<Rightarrow> nat \<Rightarrow> (nat \<Rightarrow> nat \<Rightarrow> complex) \<Rightarrow> t_mat" where
  "fill_row a i m f = a\<lparr>elem := (\<lambda>i' j. if i' = i \<and> j < m then f i j else elem a i' j)\<rparr>"

text \<open>
  The intermediate values of \<^verbatim>\<open>CalcCorrelationsFromHamiltonian\<close> as functions of its
  arguments: the permutation, the matrix \<open>V\<close> of the reordered eigenvectors, the matrix
  \<open>L = V\<^sup>\<dagger> H V\<close>, the freshly created band list, the transformation \<open>T\<close> and the
  transformed coupling matrix \<open>T\<^sup>\<dagger> M T\<close>.
\<close>

definition init_bands :: "t_mat \<Rightarrow> EnergiesAndWeights" where
  "init_bands energy_mat =
     map (\<lambda>i. \<lparr>E = Re (elem energy_mat i i), S = zero 3 3, S_sum = 0,
                weight_full = 0, S_perp = zero 3 3, S_perp_sum = 0,
                weight = 0\<rparr>) [0..<size1 energy_mat]"

definition sorting_of :: "EnergiesAndWeights \<Rightarrow> nat list" where
  "sorting_of bands = get_perm (length bands) (\<lambda>idx1 idx2. E (bands ! idx1) \<ge> E (bands ! idx2))"

definition evec_mat_of :: "EnergiesAndWeights \<Rightarrow> t_vec list \<Rightarrow> t_mat" where
  "evec_mat_of bands evecs = create_cols (reorder evecs (sorting_of bands))"

definition energy_mat_of :: "EnergiesAndWeights \<Rightarrow> t_mat \<Rightarrow> t_vec list \<Rightarrow> t_mat" where
  "energy_mat_of bands H_mat evecs =
     mat_mul (mat_mul (herm (evec_mat_of bands evecs)) H_mat) (evec_mat_of bands evecs)"

definition trafo_of ::
  "(t_mat \<Rightarrow> t_mat \<times> bool) \<Rightarrow> EnergiesAndWeights \<Rightarrow> t_mat \<Rightarrow> t_mat \<Rightarrow> t_mat \<Rightarrow> t_vec list \<Rightarrow> t_mat" where
  "trafo_of tl2_inv bands H_mat chol_mat g_sign evecs =
     mat_mul (mat_mul (fst (tl2_inv chol_mat)) (evec_mat_of bands evecs))
       (sqrt_diag (mat_mul g_sign (energy_mat_of bands H_mat evecs)))"

definition M_trafo_of ::
  "(t_mat \<Rightarrow> t_mat \<times> bool) \<Rightarrow> 'p MagDyn \<Rightarrow> EnergiesAndWeights \<Rightarrow> t_mat \<Rightarrow> t_mat \<Rightarrow> t_mat
   \<Rightarrow> t_vec_real \<Rightarrow> t_vec list \<Rightarrow> nat \<Rightarrow> nat \<Rightarrow> t_mat" where
  "M_trafo_of tl2_inv md bands H_mat chol_mat g_sign Qvec evecs x y =
     mat_mul (mat_mul (herm (trafo_of tl2_inv bands H_mat chol_mat g_sign evecs))
                (coupling_matrix md Qvec x y))
       (trafo_of tl2_inv bands H_mat chol_mat g_sign evecs)"

text \<open>
  The quadratic form \<open>v\<^sup>\<dagger> S v\<close> of a 3x3 tensor, positive semi-definiteness (the real
  part of the form is never negative), and the normalised direction of \<^verbatim>\<open>Q\<close>.
\<close>

definition quad_form :: "t_mat \<Rightarrow> (nat \<Rightarrow> complex) \<Rightarrow> complex" where
  "quad_form m v = (\<Sum>a<3. \<Sum>b<3. cnj (v a) * elem m a b * v b)"

definition psd3 :: "t_mat \<Rightarrow> bool" where
  "psd3 m \<longleftrightarrow> size1 m = 3 \<and> size2 m = 3 \<and> (\<forall>v. 0 \<le> Re (quad_form m v))"

definition unit_dir :: "t_vec_real \<Rightarrow> nat \<Rightarrow> complex" where
  "unit_dir Q i = complex_of_real (Q ! i / norm_real Q)"

text \<open>
  Well-formed arguments of \<^verbatim>\<open>CalcCorrelationsFromHamiltonian\<close>: at least one site, and
  for \<open>N\<close> sites the band list, the eigenvectors and every matrix (the result of the
  inversion included) have size \<open>2N\<close>; positions have as many components as \<^verbatim>\<open>Qvec\<close> and
  the \<open>u\<close> vectors three. Outside these the matrix products and the indexing of the C++
  are undefined. \<open>expectation H v\<close> is \<open>v\<^sup>\<dagger> H v\<close>, the diagonal element of
  \<open>V\<^sup>\<dagger> H V\<close> for the column \<open>v\<close> of \<open>V\<close>.
\<close>

definition wf_input ::
  "(t_mat \<Rightarrow> t_mat \<times> bool) \<Rightarrow> 'p MagDyn \<Rightarrow> EnergiesAndWeights \<Rightarrow> t_mat \<Rightarrow> t_mat \<Rightarrow> t_mat
   \<Rightarrow> t_vec_real \<Rightarrow> t_vec list \<Rightarrow> bool" where
  "wf_input tl2_inv md bands H_mat chol_mat g_sign Qvec evecs \<longleftrightarrow>
     (let N = length (sites md) in
        0 < N \<and> length bands = 2 * N \<and> length evecs = 2 * N \<and>
        list_all (\<lambda>v. length v = 2 * N) evecs \<and>
        size1 H_mat = 2 * N \<and> size2 H_mat = 2 * N \<and>
        size1 chol_mat = 2 * N \<and> size2 chol_mat = 2 * N \<and>
        size1 g_sign = 2 * N \<and> size2 g_sign = 2 * N \<and>
        size1 (fst (tl2_inv chol_mat)) = 2 * N \<and> size2 (fst (tl2_inv chol_mat)) = 2 * N \<and>
        list_all (\<lambda>s. length (pos_calc s) = length Qvec \<and>
                       length (ge_trafo_plane_calc s) = 3 \<and>
                       length (ge_trafo_plane_conj_calc s) = 3) (sites md))"


definition expectation :: "t_mat \<Rightarrow> t_vec \<Rightarrow> complex" where
  "expectation H_mat v = (\<Sum>a<length v. \<Sum>b<length v. cnj (v ! a) * elem H_mat a b * v ! b)"

text \<open>
  The input energies order the eigenvectors as their expectation values of \<open>H\<close> do.
\<close>

definition order_consistent :: "EnergiesAndWeights \<Rightarrow> t_mat \<Rightarrow> t_vec list \<Rightarrow> bool" where
  "order_consistent bands H_mat evecs \<longleftrightarrow>
     (\<forall>k<length bands. \<forall>l<length bands.
        E (bands ! k) \<ge> E (bands ! l) \<longrightarrow>
        Re (expectation H_mat (evecs ! k)) \<ge> Re (expectation H_mat (evecs ! l)))"

text \<open>A matrix \<open>T\<close> of size \<open>n\<close> with \<open>T T\<^sup>\<dagger> = 1\<close>.\<close>

definition unitary :: "nat \<Rightarrow> t_mat \<Rightarrow> bool" where
  "unitary n T \<longleftrightarrow>
     (\<forall>a<n. \<forall>b<n. elem (mat_mul T (herm T)) a b = (if a = b then 1 else 0))"

subsection \<open>Sample inputs\<close>

text \<open>
  Concrete inputs at which the theorems below are instantiated. The sample parser holds
  the value of its variable \<^verbatim>\<open>Q\<close>; its expression is \<^verbatim>\<open>3*Q\<close> and raises at \<^verbatim>\<open>Q = 0\<close>.
\<close>

definition unit3 :: t_mat where
  "unit3 = \<lparr>size1 = 3, size2 = 3, elem = (\<lambda>i j. if i = j then 1 else 0)\<rparr>"

definition sample_parser :: "real ExprParser" where
  "sample_parser = \<lparr>register_var = (\<lambda>p n v. v),
     eval = (\<lambda>p. if p = 0 then None else Some (complex_of_real (3 * p))),
     fallback = 5\<rparr>"

definition sample_bose :: "real \<Rightarrow> real \<Rightarrow> real \<Rightarrow> real" where
  "sample_bose En T c = 2"

definition sample_magdyn :: "real \<Rightarrow> string \<Rightarrow> real MagDyn" where
  "sample_magdyn T f = \<lparr>sites = [], m_phase_sign = 1, m_temperature = T, m_bose_cutoff = 0,
     m_magffact_formula = f, m_magffact = 0,
     m_xtalB = \<lparr>size1 = 3, size2 = 3, elem = (\<lambda>i j. if i = j then 1 else 0)\<rparr>\<rparr>"

definition sample_band :: "t_mat \<Rightarrow> EnergyAndWeight" where
  "sample_band m = \<lparr>E = 1, S = m, S_sum = 0, weight_full = 0,
     S_perp = zero 3 3, S_perp_sum = 0, weight = 0\<rparr>"

definition indef3 :: t_mat where
  "indef3 = \<lparr>size1 = 3, size2 = 3,
     elem = (\<lambda>i j. if i = j then (if i = 0 then 1 else if i = 1 then - 1 else 0) else 0)\<rparr>"

text \<open>
  A lattice of one site, 2x2 matrices, and an inversion routine for 2x2 matrices that
  reports a vanishing determinant as a failure and then returns its argument.
\<close>

definition mat2 :: "complex \<Rightarrow> complex \<Rightarrow> complex \<Rightarrow> complex \<Rightarrow> t_mat" where
  "mat2 a b c d = \<lparr>size1 = 2, size2 = 2,
     elem = (\<lambda>i j. if i = 0 then (if j = 0 then a else b) else (if j = 0 then c else d))\<rparr>"

definition inv2 :: "t_mat \<Rightarrow> t_mat \<times> bool" where
  "inv2 m =
     (let det = elem m 0 0 * elem m 1 1 - elem m 0 1 * elem m 1 0
      in if det = 0 then (m, False)
         else (\<lparr>size1 = 2, size2 = 2,
                elem = (\<lambda>i j. (if i = j then elem m (1 - i) (1 - j) else - elem m i j) / det)\<rparr>,
               True))"

definition sample_site :: MagneticSite where
  "sample_site = \<lparr>pos_calc = [0, 0, 0], spin_mag_calc = 1,
     ge_trafo_plane_calc = [1, \<i>, 0], ge_trafo_plane_conj_calc = [1, - \<i>, 0]\<rparr>"

definition sample_lattice :: "real MagDyn" where
  "sample_lattice = (sample_magdyn (- 1) [])\<lparr>sites := [sample_site]\<rparr>"

definition energy_band :: "real \<Rightarrow> EnergyAndWeight" where
  "energy_band e = \<lparr>E = e, S = zero 3 3, S_sum = 0, weight_full = 0,
     S_perp = zero 3 3, S_perp_sum = 0, weight = 0\<rparr>"

definition boost_chol :: t_mat where
  "boost_chol = mat2 (5 / 3) (- 4 / 3) (- 4 / 3) (5 / 3)"

section \<open>Properties\<close>

subsection \<open>Matrix operations\<close>

lemma size_simps [simp]:
  "size1 (zero n m) = n" "size2 (zero n m) = m" "elem (zero n m) i j = 0"
  "size1 (create n m) = n" "size2 (create n m) = m" "elem (create n m) i j = 0"
  "size1 (herm a) = size2 a" "size2 (herm a) = size1 a" "elem (herm a) i j = cnj (elem a j i)"
  "size1 (mat_mul a b) = size1 a" "size2 (mat_mul a b) = size2 b"
  "size1 (smul a c) = size1 a" "size2 (smul a c) = size2 a" "elem (smul a c) i j = elem a i j * c"
  "size1 (set_submat a sub r c') = size1 a" "size2 (set_submat a sub r c') = size2 a"
  by (simp_all add: zero_def create_def herm_def mat_mul_def smul_def set_submat_def)

lemma set_elem_simps [simp]:
  "size1 (set_elem (a :: 'a mat) i j v) = size1 a" "size2 (set_elem a i j v) = size2 a"
  "elem (set_elem a i j v) i' j' = (if i' = i \<and> j' = j then v else elem a i' j')"
  by (simp_all add: set_elem_def)

lemma elem_mat_mul: "elem (mat_mul a b) i j = (\<Sum>k<size2 a. elem a i k * elem b k j)"
  by (simp add: mat_mul_def interv_sum_list_conv_sum_set_nat atLeast0LessThan)

lemma trace_sum: "trace m = (\<Sum>i<size1 m. elem m i i)"
  by (simp add: trace_def interv_sum_list_conv_sum_set_nat atLeast0LessThan)

text \<open>Short intervals and sums, written out.\<close>

lemma upt2: "[0..<2] = [0, 1]"
  by (simp add: upt_rec)

lemma upt3: "[0..<3] = [0, 1, 2]"
  by (simp add: upt_rec)

lemma sum2: "(\<Sum>i<(2::nat). f i) = f 0 + (f 1 :: 'a :: comm_monoid_add)"
  by (simp add: eval_nat_numeral)

lemma sum3: "(\<Sum>i<(3::nat). f i) = f 0 + f 1 + (f 2 :: 'a :: comm_monoid_add)"
  by (simp add: eval_nat_numeral)

subsection \<open>The permutation that sorts the energies\<close>

lemma set_insert_by: "set (insert_by c x ys) = insert x (set ys)"
  by (induction ys) auto

lemma length_insert_by: "length (insert_by c x ys) = Suc (length ys)"
  by (induction ys) auto

lemma distinct_insert_by: "distinct ys \<Longrightarrow> x \<notin> set ys \<Longrightarrow> distinct (insert_by c x ys)"
  by (induction ys) (auto simp: set_insert_by)

lemma sorted_insert_by:
  assumes tot: "\<And>a b. c a b \<or> c b a" and tr: "\<And>a b d. c a b \<Longrightarrow> c b d \<Longrightarrow> c a d"
  shows "sorted_wrt c ys \<Longrightarrow> sorted_wrt c (insert_by c x ys)"
proof (induction ys)
  case Nil
  then show ?case by simp
next
  case (Cons y ys)
  show ?case
  proof (cases "c x y")
    case True
    with Cons.prems show ?thesis using tr by auto
  next
    case False
    then have "c y x" using tot by blast
    with Cons False show ?thesis by (auto simp: set_insert_by)
  qed
qed

lemma foldr_insert_by_props:
  "set (foldr (insert_by c) xs []) = set xs \<and> length (foldr (insert_by c) xs []) = length xs
   \<and> (distinct xs \<longrightarrow> distinct (foldr (insert_by c) xs []))"
  by (induction xs) (auto simp: set_insert_by length_insert_by distinct_insert_by)

lemma get_perm_set: "set (get_perm n c) = {0..<n}"
  and get_perm_length: "length (get_perm n c) = n"
  and get_perm_distinct: "distinct (get_perm n c)"
  using foldr_insert_by_props [of c "[0..<n]"] by (simp_all add: get_perm_def)

lemma get_perm_less: "i < n \<Longrightarrow> get_perm n c ! i < n"
  using get_perm_set [of n c] get_perm_length [of n c] nth_mem [of i "get_perm n c"] by auto

lemma get_perm_sorted:
  assumes tot: "\<And>a b. c a b \<or> c b a" and tr: "\<And>a b d. c a b \<Longrightarrow> c b d \<Longrightarrow> c a d"
  shows "sorted_wrt c (get_perm n c)"
proof -
  have "sorted_wrt c (foldr (insert_by c) xs [])" for xs
    by (induction xs) (simp_all add: sorted_insert_by [OF tot tr])
  then show ?thesis by (simp add: get_perm_def)
qed

subsection \<open>The loops of CalcCorrelationsFromHamiltonian\<close>

lemma sqrt_diag_aux:
  "n \<le> size1 m \<Longrightarrow>
   size1 (fold (\<lambda>i Es. set_elem Es i i (csqrt (elem Es i i))) [0..<n] m) = size1 m \<and>
   size2 (fold (\<lambda>i Es. set_elem Es i i (csqrt (elem Es i i))) [0..<n] m) = size2 m \<and>
   (\<forall>i j. elem (fold (\<lambda>i Es. set_elem Es i i (csqrt (elem Es i i))) [0..<n] m) i j =
      (if i = j \<and> i < n then csqrt (elem m i i) else elem m i j))"
  by (induction n) auto

lemma sqrt_diag_simps [simp]:
  "size1 (sqrt_diag m) = size1 m" "size2 (sqrt_diag m) = size2 m"
  "elem (sqrt_diag m) i j = (if i = j \<and> i < size1 m then csqrt (elem m i i) else elem m i j)"
  using sqrt_diag_aux [of "size1 m" m] by (simp_all add: sqrt_diag_def)

lemma fill_row_0: "fill_row a i 0 f = a"
  by (simp add: fill_row_def)

lemma fill_row_Suc: "set_elem (fill_row a i m f) i m (f i m) = fill_row a i (Suc m) f"
  by (auto simp: fill_row_def set_elem_def fun_eq_iff)

lemma fill_0: "fill a 0 m f = a"
  by (simp add: fill_def)

lemma fill_Suc: "fill_row (fill a n m f) n m f = fill a (Suc n) m f"
  by (auto simp: fill_row_def fill_def fun_eq_iff)

lemma fold_row4:
  "fold (\<lambda>j Ms. case Ms of (A, B, C, D) \<Rightarrow>
      (set_elem A i j (fa i j), set_elem B i j (fb i j),
       set_elem C i j (fc i j), set_elem D i j (fd i j))) [0..<m] (A, B, C, D)
   = (fill_row A i m fa, fill_row B i m fb, fill_row C i m fc, fill_row D i m fd)"
  by (induction m) (simp_all add: fill_row_0 fill_row_Suc)

lemma fold_all4:
  "fold (\<lambda>i Ms. fold (\<lambda>j Ms. case Ms of (A, B, C, D) \<Rightarrow>
      (set_elem A i j (fa i j), set_elem B i j (fb i j),
       set_elem C i j (fc i j), set_elem D i j (fd i j))) [0..<m] Ms) [0..<n] (A, B, C, D)
   = (fill A n m fa, fill B n m fb, fill C n m fc, fill D n m fd)"
  by (induction n) (simp_all add: fill_0 fill_Suc fold_row4)

lemma site_blocks_eq:
  "site_blocks md Qvec x y =
    (let N = length (sites md) in
     (fill (create N N) N N (\<lambda>i j. pair_prefactor md Qvec i j
          * ge_trafo_plane_calc (sites md ! i) ! x * ge_trafo_plane_conj_calc (sites md ! j) ! y),
      fill (create N N) N N (\<lambda>i j. pair_prefactor md Qvec i j
          * ge_trafo_plane_calc (sites md ! i) ! x * ge_trafo_plane_calc (sites md ! j) ! y),
      fill (create N N) N N (\<lambda>i j. pair_prefactor md Qvec i j
          * ge_trafo_plane_conj_calc (sites md ! i) ! x * ge_trafo_plane_conj_calc (sites md ! j) ! y),
      fill (create N N) N N (\<lambda>i j. pair_prefactor md Qvec i j
          * ge_trafo_plane_conj_calc (sites md ! i) ! x * ge_trafo_plane_calc (sites md ! j) ! y)))"
  unfolding site_blocks_def site_pair_step_def Let_def GetMagneticSitesCount_def
    GetMagneticSite_def pair_prefactor_def [symmetric]
  by (rule fold_all4)

lemma fill_simps [simp]:
  "size1 (fill a n m f) = size1 a" "size2 (fill a n m f) = size2 a"
  "elem (fill a n m f) i j = (if i < n \<and> j < m then f i j else elem a i j)"
  by (simp_all add: fill_def)

lemma coupling_matrix_size [simp]:
  "size1 (coupling_matrix md Qvec x y) = 2 * length (sites md)"
  "size2 (coupling_matrix md Qvec x y) = 2 * length (sites md)"
  by (simp_all add: coupling_matrix_def site_blocks_eq Let_def GetMagneticSitesCount_def)

lemma coupling_matrix_elem:
  assumes "a < 2 * length (sites md)" "b < 2 * length (sites md)"
  shows "elem (coupling_matrix md Qvec x y) a b =
    (let N = length (sites md); i = a mod N; j = b mod N in
     pair_prefactor md Qvec i j
       * (if a < N then ge_trafo_plane_calc (sites md ! i) ! x
          else ge_trafo_plane_conj_calc (sites md ! i) ! x)
       * (if b < N then ge_trafo_plane_conj_calc (sites md ! j) ! y
          else ge_trafo_plane_calc (sites md ! j) ! y))"
  using assms
  by (auto simp add: coupling_matrix_def site_blocks_eq Let_def GetMagneticSitesCount_def
      set_submat_def not_less le_mod_geq)

lemma add_diag_aux:
  "n \<le> length bs \<Longrightarrow>
   length (fold (\<lambda>i bs. bs[i := (bs ! i)\<lparr>S := set_elem (S (bs ! i)) x y
                      (elem (S (bs ! i)) x y + elem Mt i i / complex_of_real (real sz))\<rparr>])
       [0..<n] bs) = length bs \<and>
   (\<forall>k<length bs. fold (\<lambda>i bs. bs[i := (bs ! i)\<lparr>S := set_elem (S (bs ! i)) x y
                      (elem (S (bs ! i)) x y + elem Mt i i / complex_of_real (real sz))\<rparr>])
       [0..<n] bs ! k =
     (if k < n then (bs ! k)\<lparr>S := set_elem (S (bs ! k)) x y
                      (elem (S (bs ! k)) x y + elem Mt k k / complex_of_real (real sz))\<rparr>
      else bs ! k))"
proof (induction n)
  case 0
  show ?case by simp
next
  case (Suc n)
  then have "n \<le> length bs" by simp
  from Suc.IH [OF this] Suc.prems show ?case
    by (auto simp: nth_list_update less_Suc_eq)
qed

lemma add_diag_length [simp]: "length (add_diag x y Mt sz bs) = length bs"
  using add_diag_aux [of "length bs" bs x y Mt sz] by (simp add: add_diag_def)

lemma add_diag_nth:
  "k < length bs \<Longrightarrow>
   add_diag x y Mt sz bs ! k =
     (bs ! k)\<lparr>S := set_elem (S (bs ! k)) x y
        (elem (S (bs ! k)) x y + elem Mt k k / complex_of_real (real sz))\<rparr>"
  using add_diag_aux [of "length bs" bs x y Mt sz] by (simp add: add_diag_def)

lemma correlation_step_length [simp]:
  "length (correlation_step md Q T Th x y bs) = length bs"
  by (simp add: correlation_step_def Let_def)

lemma correlation_step_nth:
  "k < length bs \<Longrightarrow>
   correlation_step md Q T Th x y bs ! k =
     (bs ! k)\<lparr>S := set_elem (S (bs ! k)) x y
        (elem (S (bs ! k)) x y
          + elem (mat_mul (mat_mul Th (coupling_matrix md Q x y)) T) k k
            / complex_of_real (real (2 * length (sites md))))\<rparr>"
  by (simp add: correlation_step_def Let_def add_diag_nth)

text \<open>A loop over distinct second indices, then over distinct first indices.\<close>

lemma fold_y_props:
  "length (fold (\<lambda>y bs. correlation_step md Q T Th x y bs) ys bs) = length bs \<and>
   (\<forall>k<length bs.
      E (fold (\<lambda>y bs. correlation_step md Q T Th x y bs) ys bs ! k) = E (bs ! k) \<and>
      size1 (S (fold (\<lambda>y bs. correlation_step md Q T Th x y bs) ys bs ! k)) = size1 (S (bs ! k)) \<and>
      size2 (S (fold (\<lambda>y bs. correlation_step md Q T Th x y bs) ys bs ! k)) = size2 (S (bs ! k)) \<and>
      (distinct ys \<longrightarrow> (\<forall>a b.
        elem (S (fold (\<lambda>y bs. correlation_step md Q T Th x y bs) ys bs ! k)) a b =
          elem (S (bs ! k)) a b
          + (if a = x \<and> b \<in> set ys
             then elem (mat_mul (mat_mul Th (coupling_matrix md Q a b)) T) k k
                    / complex_of_real (real (2 * length (sites md)))
             else 0))))"
proof (induction ys arbitrary: bs)
  case Nil
  show ?case by simp
next
  case (Cons y ys)
  show ?case
    using Cons [of "correlation_step md Q T Th x y bs"]
    by (auto simp: correlation_step_nth)
qed

lemma fold_xy_props:
  "length (fold (\<lambda>x bs. fold (\<lambda>y bs. correlation_step md Q T Th x y bs) ys bs) xs bs) = length bs \<and>
   (\<forall>k<length bs.
      E (fold (\<lambda>x bs. fold (\<lambda>y bs. correlation_step md Q T Th x y bs) ys bs) xs bs ! k) = E (bs ! k) \<and>
      size1 (S (fold (\<lambda>x bs. fold (\<lambda>y bs. correlation_step md Q T Th x y bs) ys bs) xs bs ! k))
        = size1 (S (bs ! k)) \<and>
      size2 (S (fold (\<lambda>x bs. fold (\<lambda>y bs. correlation_step md Q T Th x y bs) ys bs) xs bs ! k))
        = size2 (S (bs ! k)) \<and>
      (distinct xs \<and> distinct ys \<longrightarrow> (\<forall>a b.
        elem (S (fold (\<lambda>x bs. fold (\<lambda>y bs. correlation_step md Q T Th x y bs) ys bs) xs bs ! k)) a b =
          elem (S (bs ! k)) a b
          + (if a \<in> set xs \<and> b \<in> set ys
             then elem (mat_mul (mat_mul Th (coupling_matrix md Q a b)) T) k k
                    / complex_of_real (real (2 * length (sites md)))
             else 0))))"
proof (induction xs arbitrary: bs)
  case Nil
  show ?case by simp
next
  case (Cons x xs)
  let ?bs1 = "fold (\<lambda>y bs. correlation_step md Q T Th x y bs) ys bs"
  note inner = fold_y_props [of md Q T Th x ys bs]
  have len: "length ?bs1 = length bs" using inner by simp
  show ?case
    using Cons [of ?bs1] inner len
    by (auto simp: )
qed

lemma init_bands_length [simp]: "length (init_bands m) = size1 m"
  by (simp add: init_bands_def)

lemma init_bands_nth:
  "k < size1 m \<Longrightarrow> init_bands m ! k =
     \<lparr>E = Re (elem m k k), S = zero 3 3, S_sum = 0, weight_full = 0,
      S_perp = zero 3 3, S_perp_sum = 0, weight = 0\<rparr>"
  by (simp add: init_bands_def)

lemma CalcCorrelations_unfold:
  "CalcCorrelationsFromHamiltonian tl2_inv md bands H_mat chol_mat g_sign Qvec evecs =
    (if length (sites md) = 0 then (bands, [])
     else (fold (\<lambda>x bs. fold (\<lambda>y bs. correlation_step md Qvec
                  (trafo_of tl2_inv bands H_mat chol_mat g_sign evecs)
                  (herm (trafo_of tl2_inv bands H_mat chol_mat g_sign evecs)) x y bs) [0..<3] bs)
             [0..<3] (init_bands (energy_mat_of bands H_mat evecs)),
           if \<not> snd (tl2_inv chol_mat) then [Inversion_failed Qvec] else []))"
  by (simp add: CalcCorrelationsFromHamiltonian_def Let_def GetMagneticSitesCount_def
      trafo_of_def energy_mat_of_def evec_mat_of_def sorting_of_def init_bands_def
      split: prod.splits)

lemma CalcCorrelations_bands:
  assumes "length (sites md) \<noteq> 0"
    and out_def: "out = fst (CalcCorrelationsFromHamiltonian tl2_inv md bands H_mat chol_mat g_sign Qvec evecs)"
  shows "length out = size1 (energy_mat_of bands H_mat evecs)"
    and "k < size1 (energy_mat_of bands H_mat evecs) \<Longrightarrow>
         E (out ! k) = Re (elem (energy_mat_of bands H_mat evecs) k k)"
    and "k < size1 (energy_mat_of bands H_mat evecs) \<Longrightarrow>
         size1 (S (out ! k)) = 3 \<and> size2 (S (out ! k)) = 3"
    and "k < size1 (energy_mat_of bands H_mat evecs) \<Longrightarrow> x < 3 \<Longrightarrow> y < 3 \<Longrightarrow>
         elem (S (out ! k)) x y =
           elem (M_trafo_of tl2_inv md bands H_mat chol_mat g_sign Qvec evecs x y) k k
             / complex_of_real (real (2 * length (sites md)))"
proof -
  let ?T = "trafo_of tl2_inv bands H_mat chol_mat g_sign evecs"
  let ?b0 = "init_bands (energy_mat_of bands H_mat evecs)"
  note P = fold_xy_props [of md Qvec ?T "herm ?T" "[0..<3]" "[0..<3]" ?b0]
  have out: "out = fold (\<lambda>x bs. fold (\<lambda>y bs. correlation_step md Qvec ?T (herm ?T) x y bs)
                [0..<3] bs) [0..<3] ?b0"
    using assms(1) by (simp add: out_def CalcCorrelations_unfold)
  show "length out = size1 (energy_mat_of bands H_mat evecs)"
    using P by (simp add: out)
  show "E (out ! k) = Re (elem (energy_mat_of bands H_mat evecs) k k)"
    if "k < size1 (energy_mat_of bands H_mat evecs)"
    using P that by (simp add: out init_bands_nth)
  show "size1 (S (out ! k)) = 3 \<and> size2 (S (out ! k)) = 3"
    if "k < size1 (energy_mat_of bands H_mat evecs)"
    using P that by (simp add: out init_bands_nth)
  show "elem (S (out ! k)) x y =
           elem (M_trafo_of tl2_inv md bands H_mat chol_mat g_sign Qvec evecs x y) k k
             / complex_of_real (real (2 * length (sites md)))"
    if "k < size1 (energy_mat_of bands H_mat evecs)" "x < 3" "y < 3"
    using P that by (simp add: out init_bands_nth M_trafo_of_def)
qed

subsection \<open>Well-formed arguments\<close>

lemma wf_size:
  assumes "wf_input tl2_inv md bands H_mat chol_mat g_sign Qvec evecs"
  shows "size1 (energy_mat_of bands H_mat evecs) = 2 * length (sites md)"
    and "length (sites md) \<noteq> 0"
  using assms
  by (simp_all add: wf_input_def Let_def energy_mat_of_def evec_mat_of_def create_cols_def
      reorder_def)

lemma wf_sorting:
  assumes "wf_input tl2_inv md bands H_mat chol_mat g_sign Qvec evecs"
    and "i < 2 * length (sites md)"
  shows "sorting_of bands ! i < length evecs"
    and "length (evecs ! (sorting_of bands ! i)) = 2 * length (sites md)"
proof -
  have len: "length bands = 2 * length (sites md)" "length evecs = 2 * length (sites md)"
    and all: "list_all (\<lambda>v. length v = 2 * length (sites md)) evecs"
    using assms(1) by (simp_all add: wf_input_def Let_def)
  show lt: "sorting_of bands ! i < length evecs"
    using get_perm_less [of i "length bands"] assms(2) len by (simp add: sorting_of_def)
  show "length (evecs ! (sorting_of bands ! i)) = 2 * length (sites md)"
    using all lt by (simp add: list_all_length)
qed

lemma evec_mat_size:
  assumes "wf_input tl2_inv md bands H_mat chol_mat g_sign Qvec evecs"
  shows "size1 (evec_mat_of bands evecs) = 2 * length (sites md)"
    and "size2 (evec_mat_of bands evecs) = 2 * length (sites md)"
proof -
  let ?N = "length (sites md)"
  have len: "length evecs = 2 * ?N" and pos: "0 < ?N"
    using assms by (simp_all add: wf_input_def Let_def)
  obtain v vs where r: "reorder evecs (sorting_of bands) = v # vs"
    using len pos by (cases "reorder evecs (sorting_of bands)") (auto simp: reorder_def)
  have "v = reorder evecs (sorting_of bands) ! 0" using r by simp
  also have "\<dots> = evecs ! (sorting_of bands ! 0)"
    using len pos by (simp add: reorder_def)
  finally have "length v = 2 * ?N"
    using wf_sorting(2) [OF assms, of 0] pos by simp
  then show "size1 (evec_mat_of bands evecs) = 2 * ?N"
    by (simp add: evec_mat_of_def create_cols_def r)
  show "size2 (evec_mat_of bands evecs) = 2 * ?N"
    using len by (simp add: evec_mat_of_def create_cols_def reorder_def)
qed

lemma evec_mat_elem:
  assumes "wf_input tl2_inv md bands H_mat chol_mat g_sign Qvec evecs"
    and "i < 2 * length (sites md)"
  shows "elem (evec_mat_of bands evecs) a i = evecs ! (sorting_of bands ! i) ! a"
  using assms by (simp add: evec_mat_of_def create_cols_def reorder_def wf_input_def Let_def)

lemma energy_mat_diag:
  assumes "wf_input tl2_inv md bands H_mat chol_mat g_sign Qvec evecs"
    and "i < 2 * length (sites md)"
  shows "elem (energy_mat_of bands H_mat evecs) i i
         = expectation H_mat (evecs ! (sorting_of bands ! i))"
proof -
  let ?n = "2 * length (sites md)"
  let ?v = "evecs ! (sorting_of bands ! i)"
  have H: "size2 H_mat = ?n" using assms(1) by (simp add: wf_input_def Let_def)
  have "elem (energy_mat_of bands H_mat evecs) i i
        = (\<Sum>k<?n. (\<Sum>l<?n. cnj (?v ! l) * elem H_mat l k) * ?v ! k)"
    by (simp add: energy_mat_of_def elem_mat_mul H evec_mat_size [OF assms(1)]
        evec_mat_elem [OF assms])
  also have "\<dots> = (\<Sum>k<?n. \<Sum>l<?n. cnj (?v ! l) * elem H_mat l k * ?v ! k)"
    by (simp add: sum_distrib_right)
  also have "\<dots> = (\<Sum>l<?n. \<Sum>k<?n. cnj (?v ! l) * elem H_mat l k * ?v ! k)"
    by (rule sum.swap)
  finally show ?thesis
    by (simp add: expectation_def wf_sorting(2) [OF assms])
qed


lemma wf_energy:
  assumes "wf_input tl2_inv md bands H_mat chol_mat g_sign Qvec evecs"
  shows "length (fst (CalcCorrelationsFromHamiltonian tl2_inv md bands H_mat chol_mat g_sign
                        Qvec evecs)) = 2 * length (sites md)"
    and "i < 2 * length (sites md) \<Longrightarrow>
         E (fst (CalcCorrelationsFromHamiltonian tl2_inv md bands H_mat chol_mat g_sign
                  Qvec evecs) ! i)
           = Re (expectation H_mat (evecs ! (sorting_of bands ! i)))"
proof -
  note sz = wf_size [OF assms]
  note B = CalcCorrelations_bands [OF sz(2) refl]
  show "length (fst (CalcCorrelationsFromHamiltonian tl2_inv md bands H_mat chol_mat g_sign
                        Qvec evecs)) = 2 * length (sites md)"
    by (simp add: B(1) sz(1))
  show "E (fst (CalcCorrelationsFromHamiltonian tl2_inv md bands H_mat chol_mat g_sign
                  Qvec evecs) ! i)
           = Re (expectation H_mat (evecs ! (sorting_of bands ! i)))"
    if "i < 2 * length (sites md)"
    using that B(2) sz(1) energy_mat_diag [OF assms that] by simp
qed

subsection \<open>Evaluation at the sample inputs\<close>

lemma sample_sites: "length (sites sample_lattice) = 1"
  by (simp add: sample_lattice_def)

lemma sample_wf:
  "size1 c = 2 \<Longrightarrow> size2 c = 2 \<Longrightarrow>
   wf_input inv2 sample_lattice [energy_band e0, energy_band e1] (mat2 h00 h01 h10 h11) c
     (mat2 1 0 0 (- 1)) [0, 0, 0] [[a0, a1], [b0, b1]]"
  by (simp add: wf_input_def sample_lattice_def sample_magdyn_def sample_site_def mat2_def
      inv2_def Let_def)

lemma sample_sorting:
  "sorting_of [energy_band e0, energy_band e1] = (if e0 \<ge> e1 then [0, 1] else [1, 0])"
  by (simp add: sorting_of_def get_perm_def upt2 energy_band_def)

lemma mat2_simps:
  "size1 (mat2 a b c d) = 2" "size2 (mat2 a b c d) = 2"
  "elem (mat2 a b c d) i j = (if i = 0 then (if j = 0 then a else b) else (if j = 0 then c else d))"
  by (simp_all add: mat2_def)

lemma sample_evec_mat:
  "size1 (evec_mat_of [energy_band e0, energy_band e1] [[a0, a1], [b0, b1]]) = 2"
  "size2 (evec_mat_of [energy_band e0, energy_band e1] [[a0, a1], [b0, b1]]) = 2"
  "j < 2 \<Longrightarrow>
   elem (evec_mat_of [energy_band e0, energy_band e1] [[a0, a1], [b0, b1]]) i j =
     [[a0, a1], [b0, b1]] ! ((if e0 \<ge> e1 then [0, 1] else [1, 0]) ! j) ! i"
  by (auto simp add: evec_mat_of_def create_cols_def reorder_def sample_sorting upt2
      less_Suc_eq eval_nat_numeral)

lemma sample_coupling:
  "a < 2 \<Longrightarrow> b < 2 \<Longrightarrow> x < 3 \<Longrightarrow> y < 3 \<Longrightarrow>
   elem (coupling_matrix sample_lattice [0, 0, 0] x y) a b =
     (if a = 0 then [1, \<i>, 0] ! x else [1, - \<i>, 0] ! x)
     * (if b = 0 then [1, - \<i>, 0] ! y else [1, \<i>, 0] ! y)"
  by (simp add: coupling_matrix_elem sample_sites Let_def pair_prefactor_def sample_lattice_def
      sample_site_def inner_real_def vec_sub_def upt3)

lemma sample_tensor:
  assumes "wf_input inv2 sample_lattice bands H_mat chol_mat g_sign [0, 0, 0] evecs"
    and "k < 2" and "x < 3" and "y < 3"
  shows "elem (S (fst (CalcCorrelationsFromHamiltonian inv2 sample_lattice bands H_mat chol_mat
                         g_sign [0, 0, 0] evecs) ! k)) x y
         = elem (mat_mul (mat_mul (herm (trafo_of inv2 bands H_mat chol_mat g_sign evecs))
                            (coupling_matrix sample_lattice [0, 0, 0] x y))
                   (trafo_of inv2 bands H_mat chol_mat g_sign evecs)) k k / 2"
proof -
  note sz = wf_size [OF assms(1)]
  show ?thesis
    using CalcCorrelations_bands(4) [OF sz(2) refl, of k bands H_mat evecs x y inv2 chol_mat
        g_sign "[0, 0, 0]"] assms(2,3,4) sz(1)
    by (simp add: M_trafo_of_def sample_sites)
qed

lemma psd3_unit3: "psd3 unit3"
proof -
  have "0 \<le> Re (quad_form unit3 v)" for v
    by (simp add: quad_form_def unit3_def sum3)
  then show ?thesis
    by (simp add: psd3_def unit3_def)
qed

subsection \<open>The loop of CalcIntensities\<close>

lemma intensity_loop_length:
  "length (intensity_loop bc ops md Q p bands) = length bands"
  by (induction bands arbitrary: p) (auto simp: Let_def split: prod.splits)

lemma intensity_step_E: "E (snd (intensity_step bc ops md Q p b)) = E b"
  by (simp add: intensity_step_def Let_def split: prod.splits)

lemma intensity_step_parser:
  "fst (intensity_step bc ops md Q p b) = next_parser ops md Q p"
  by (simp add: intensity_step_def formfactor_step_def next_parser_def Let_def
      split: prod.splits)

lemma intensity_loop_E:
  "map E (intensity_loop bc ops md Q p bands) = map E bands"
proof (induction bands arbitrary: p)
  case Nil
  show ?case by simp
next
  case (Cons b bands)
  obtain p' b' where st: "intensity_step bc ops md Q p b = (p', b')"
    by (cases "intensity_step bc ops md Q p b")
  have "E b' = E b"
    using intensity_step_E [of bc ops md Q p b] st by simp
  with Cons st show ?case by simp
qed

lemma intensity_loop_nth:
  "k < length bands \<Longrightarrow>
   intensity_loop bc ops md Q p bands ! k =
     snd (intensity_step bc ops md Q ((next_parser ops md Q ^^ k) p) (bands ! k))"
proof (induction bands arbitrary: p k)
  case Nil
  then show ?case by simp
next
  case (Cons b bands)
  obtain p' b' where st: "intensity_step bc ops md Q p b = (p', b')"
    by (cases "intensity_step bc ops md Q p b")
  have p': "p' = next_parser ops md Q p"
    using intensity_step_parser [of bc ops md Q p b] st by simp
  show ?case
  proof (cases k)
    case 0
    with st show ?thesis by simp
  next
    case (Suc j)
    with Cons.prems have "j < length bands" by simp
    from Cons.IH [OF this, of p'] st Suc p' show ?thesis
      by (simp add: funpow_swap1)
  qed
qed

lemma CalcIntensities_nth:
  "k < length bands \<Longrightarrow>
   CalcIntensities bc ops md Q bands ! k =
     snd (intensity_step bc ops md Q (parser_at ops md Q k) (bands ! k))"
  by (simp add: CalcIntensities_def parser_at_def intensity_loop_nth)

lemma intensity_step_S:
  "S (snd (intensity_step bc ops md Q p b)) =
     snd (formfactor_step ops md Q p (bose_step bc md b))"
  by (simp add: intensity_step_def Let_def split: prod.splits)

text \<open>
  C10: \<^verbatim>\<open>CalcIntensities\<close> never modifies the energy of a band: the list has the same
  length after the call, and each record's \<^verbatim>\<open>E\<close> is the one it had before.
\<close>

theorem CalcIntensities_keeps_E:
  "length (CalcIntensities bc ops md Q_rlu bands) = length bands \<and>
   map E (CalcIntensities bc ops md Q_rlu bands) = map E bands"
  by (simp add: CalcIntensities_def intensity_loop_length intensity_loop_E)

subsection \<open>Bose factor and form factor\<close>

text \<open>
  C5: for every band, with a non-negative temperature the stored \<^verbatim>\<open>S\<close> is the input
  \<^verbatim>\<open>S\<close> multiplied by \<^verbatim>\<open>bose_cutoff(E, temperature, cutoff)\<close> (and then passed through
  the form-factor step); with a negative temperature the Bose step leaves \<^verbatim>\<open>S\<close> as it
  is, so that only the form-factor step acts on it; and with a negative temperature and an
  empty formula the stored \<^verbatim>\<open>S\<close> is the input \<^verbatim>\<open>S\<close>.
\<close>

theorem CalcIntensities_bose:
  assumes "k < length bands"
  shows "(m_temperature md \<ge> 0 \<longrightarrow>
            S (CalcIntensities bc ops md Q_rlu bands ! k) =
              snd (formfactor_step ops md Q_rlu (parser_at ops md Q_rlu k)
                (smul (S (bands ! k))
                   (complex_of_real
                      (bc (E (bands ! k)) (m_temperature md) (m_bose_cutoff md))))))
       \<and> (m_temperature md < 0 \<longrightarrow>
            S (CalcIntensities bc ops md Q_rlu bands ! k) =
              snd (formfactor_step ops md Q_rlu (parser_at ops md Q_rlu k) (S (bands ! k))))
       \<and> (m_temperature md < 0 \<and> m_magffact_formula md = '''' \<longrightarrow>
            S (CalcIntensities bc ops md Q_rlu bands ! k) = S (bands ! k))"
  using assms
  by (simp add: CalcIntensities_nth intensity_step_S bose_step_def formfactor_step_def)

theorem CalcIntensities_bose_witness:
  "elem (S (CalcIntensities sample_bose sample_parser (sample_magdyn 1 ''Q'') [0, 0, 1]
             [sample_band unit3] ! 0)) 0 0 = 6
   \<and> elem (S (CalcIntensities sample_bose sample_parser (sample_magdyn (-1) ''Q'') [0, 0, 1]
             [sample_band unit3] ! 0)) 0 0 = 3
   \<and> S (CalcIntensities sample_bose sample_parser (sample_magdyn (-1) '''') [0, 0, 1]
             [sample_band unit3] ! 0) = unit3"
  using
    CalcIntensities_bose [of 0 "[sample_band unit3]" "sample_magdyn 1 ''Q''"
      sample_bose sample_parser "[0, 0, 1]"]
    CalcIntensities_bose [of 0 "[sample_band unit3]" "sample_magdyn (-1) ''Q''"
      sample_bose sample_parser "[0, 0, 1]"]
    CalcIntensities_bose [of 0 "[sample_band unit3]" "sample_magdyn (-1) ''''"
      sample_bose sample_parser "[0, 0, 1]"]
  by (simp add: sample_magdyn_def sample_band_def sample_parser_def sample_bose_def unit3_def
      formfactor_step_def parser_at_def smul_def eval_noexcept_def norm_real_def
      inner_real_def mat_vec_real_def upt3)

text \<open>
  C8: for every band, exactly when the formula string is non-empty the stored \<^verbatim>\<open>S\<close>
  is the Bose-weighted \<^verbatim>\<open>S\<close> multiplied by the real part of the parser's non-throwing
  evaluation, the variable \<^verbatim>\<open>Q\<close> being set to the norm of \<^verbatim>\<open>m_xtalB * Q_rlu\<close>; when that
  evaluation raises, the factor is the real part of the fallback value; with an empty
  formula the stored \<^verbatim>\<open>S\<close> is the Bose-weighted \<^verbatim>\<open>S\<close>, and the parser is not touched.
\<close>

theorem CalcIntensities_formfactor:
  assumes "k < length bands"
  shows "(m_magffact_formula md \<noteq> '''' \<longrightarrow>
            S (CalcIntensities bc ops md Q_rlu bands ! k) =
              smul (bose_step bc md (bands ! k))
                (complex_of_real (Re (eval_noexcept ops
                   (register_var ops (parser_at ops md Q_rlu k) ''Q''
                      (norm_real (mat_vec_real (m_xtalB md) Q_rlu)))))))
       \<and> (m_magffact_formula md \<noteq> '''' \<and>
          eval ops (register_var ops (parser_at ops md Q_rlu k) ''Q''
                      (norm_real (mat_vec_real (m_xtalB md) Q_rlu))) = None \<longrightarrow>
            S (CalcIntensities bc ops md Q_rlu bands ! k) =
              smul (bose_step bc md (bands ! k)) (complex_of_real (Re (fallback ops))))
       \<and> (m_magffact_formula md = '''' \<longrightarrow>
            S (CalcIntensities bc ops md Q_rlu bands ! k) = bose_step bc md (bands ! k) \<and>
            parser_at ops md Q_rlu k = m_magffact md)"
proof -
  have "m_magffact_formula md = '''' \<Longrightarrow> (next_parser ops md Q_rlu ^^ k) p = p" for p
    by (induction k) (simp_all add: next_parser_def)
  then show ?thesis
    using assms
    by (simp add: CalcIntensities_nth intensity_step_S formfactor_step_def Let_def
        eval_noexcept_def parser_at_def)
qed

theorem CalcIntensities_formfactor_witness:
  "elem (S (CalcIntensities sample_bose sample_parser (sample_magdyn 1 ''Q'') [0, 0, 1]
             [sample_band unit3] ! 0)) 1 1 = 6
   \<and> elem (S (CalcIntensities sample_bose sample_parser (sample_magdyn 1 ''Q'') [0, 0, 0]
             [sample_band unit3] ! 0)) 1 1 = 10
   \<and> elem (S (CalcIntensities sample_bose sample_parser (sample_magdyn 1 '''') [0, 0, 1]
             [sample_band unit3] ! 0)) 1 1 = 2"
  using
    CalcIntensities_formfactor [of 0 "[sample_band unit3]" "sample_magdyn 1 ''Q''"
      sample_bose sample_parser "[0, 0, 1]"]
    CalcIntensities_formfactor [of 0 "[sample_band unit3]" "sample_magdyn 1 ''Q''"
      sample_bose sample_parser "[0, 0, 0]"]
    CalcIntensities_formfactor [of 0 "[sample_band unit3]" "sample_magdyn 1 ''''"
      sample_bose sample_parser "[0, 0, 1]"]
  by (simp add: sample_magdyn_def sample_band_def sample_parser_def sample_bose_def unit3_def
      bose_step_def parser_at_def smul_def eval_noexcept_def norm_real_def
      inner_real_def mat_vec_real_def upt3)

subsection \<open>Transverse projection and weights\<close>

lemma projector_trace_algebra:
  fixes n :: "nat \<Rightarrow> complex" and s :: "nat \<Rightarrow> nat \<Rightarrow> complex"
  assumes "(\<Sum>i<3. n i * n i) = 1"
  shows "(\<Sum>i<3. \<Sum>b<3. (\<Sum>a<3. ((if i = a then 1 else 0) - n i * n a) * s a b)
                          * ((if b = i then 1 else 0) - n b * n i))
         = (\<Sum>a<3. s a a) - (\<Sum>a<3. \<Sum>b<3. n a * s a b * n b)"
  using assms
  apply (simp add: sum3)
  apply algebra
  done

lemma ortho_projector_simps:
  "size1 (ortho_projector Q False) = length Q" "size2 (ortho_projector Q False) = length Q"
  "elem (ortho_projector Q False) i j = (if i = j then 1 else 0) - unit_dir Q i * unit_dir Q j"
  by (simp_all add: ortho_projector_def unit_dir_def Let_def)

lemma unit_dir_cnj: "cnj (unit_dir Q i) = unit_dir Q i"
  by (simp add: unit_dir_def)

lemma unit_dir_norm:
  assumes "length Q = 3" "norm_real Q \<noteq> 0"
  shows "(\<Sum>i<3. unit_dir Q i * unit_dir Q i) = 1"
proof -
  let ?s = "\<Sum>i<3. Q ! i * Q ! i"
  have inner: "inner_real Q Q = ?s"
    using assms(1)
    by (simp add: inner_real_def interv_sum_list_conv_sum_set_nat atLeast0LessThan)
  have nn: "0 \<le> ?s" by (intro sum_nonneg) simp
  have sq: "norm_real Q * norm_real Q = ?s"
    unfolding norm_real_def inner using nn by simp
  have "(\<Sum>i<3. Q ! i / norm_real Q * (Q ! i / norm_real Q)) = ?s / (norm_real Q * norm_real Q)"
    by (simp add: sum_divide_distrib)
  also have "\<dots> = 1" unfolding sq [symmetric] using assms(2) by simp
  finally have "complex_of_real (\<Sum>i<3. Q ! i / norm_real Q * (Q ! i / norm_real Q)) = 1"
    by simp
  then show ?thesis
    unfolding unit_dir_def of_real_sum of_real_mult by simp
qed

lemma trace_projected:
  assumes "length Q = 3" "norm_real Q \<noteq> 0" "size1 m = 3" "size2 m = 3"
  shows "trace (mat_mul (mat_mul (ortho_projector Q False) m) (ortho_projector Q False))
         = trace m - quad_form m (unit_dir Q)"
  using assms(1,3,4) projector_trace_algebra [OF unit_dir_norm [OF assms(1,2)], of "elem m"]
  by (simp add: trace_sum elem_mat_mul ortho_projector_simps quad_form_def unit_dir_cnj)

lemma sym_sandwich:
  fixes p s :: "nat \<Rightarrow> nat \<Rightarrow> complex"
  shows "(\<Sum>i<3. \<Sum>b<3. (\<Sum>a<3. p i a * s a b) * p b i)
         = (\<Sum>i<3. \<Sum>a<3. \<Sum>b<3. p i a * s a b * p b i)"
  apply (simp add: sum3)
  apply algebra
  done

lemma trace_projected_quad:
  assumes "length Q = 3" "size1 m = 3" "size2 m = 3"
  shows "trace (mat_mul (mat_mul (ortho_projector Q False) m) (ortho_projector Q False))
         = (\<Sum>i<3. quad_form m (\<lambda>a. elem (ortho_projector Q False) a i))"
proof -
  let ?P = "elem (ortho_projector Q False)"
  have sym: "cnj (?P a i) = ?P i a" for a i
    by (simp add: ortho_projector_simps unit_dir_cnj mult.commute eq_commute)
  have "trace (mat_mul (mat_mul (ortho_projector Q False) m) (ortho_projector Q False))
        = (\<Sum>i<3. \<Sum>b<3. (\<Sum>a<3. ?P i a * elem m a b) * ?P b i)"
    using assms by (simp add: trace_sum elem_mat_mul ortho_projector_simps(1,2))
  also have "\<dots> = (\<Sum>i<3. \<Sum>a<3. \<Sum>b<3. ?P i a * elem m a b * ?P b i)"
    by (rule sym_sandwich)
  finally show ?thesis
    by (simp add: quad_form_def sym)
qed

lemma intensity_step_weights:
  "weight_full (snd (intensity_step bc ops md Q p b))
     = \<bar>Re (trace (S (snd (intensity_step bc ops md Q p b))))\<bar>"
  "weight (snd (intensity_step bc ops md Q p b))
     = \<bar>Re (trace (mat_mul (mat_mul (ortho_projector Q False)
            (S (snd (intensity_step bc ops md Q p b)))) (ortho_projector Q False)))\<bar>"
  by (simp_all add: intensity_step_def Let_def split: prod.splits)

lemma CalcIntensities_weights:
  assumes "k < length bands"
  shows "weight_full (CalcIntensities bc ops md Q bands ! k)
           = \<bar>Re (trace (S (CalcIntensities bc ops md Q bands ! k)))\<bar>"
    and "weight (CalcIntensities bc ops md Q bands ! k)
           = \<bar>Re (trace (mat_mul (mat_mul (ortho_projector Q False)
                 (S (CalcIntensities bc ops md Q bands ! k))) (ortho_projector Q False)))\<bar>"
  using assms by (simp_all add: CalcIntensities_nth intensity_step_weights)

text \<open>
  C6 (as amended): for every band, if \<^verbatim>\<open>Q\<close> has three components and is not the zero
  vector, and the stored tensor \<^verbatim>\<open>S\<close> is a 3x3 positive semi-definite matrix, then
  \<^verbatim>\<open>weight\<close>, the absolute real part of the trace of \<open>P S P\<close>, is at most
  \<^verbatim>\<open>weight_full\<close>, the absolute real part of the trace of \<open>S\<close>.
\<close>

theorem CalcIntensities_weight_le:
  assumes "k < length bands" and "length Q_rlu = 3" and "norm_real Q_rlu \<noteq> 0"
    and "psd3 (S (CalcIntensities bc ops md Q_rlu bands ! k))"
  shows "weight (CalcIntensities bc ops md Q_rlu bands ! k)
         \<le> weight_full (CalcIntensities bc ops md Q_rlu bands ! k)"
proof -
  let ?b = "CalcIntensities bc ops md Q_rlu bands ! k"
  let ?P = "ortho_projector Q_rlu False"
  let ?tp = "trace (mat_mul (mat_mul ?P (S ?b)) ?P)"
  have sz: "size1 (S ?b) = 3" "size2 (S ?b) = 3" and pos: "0 \<le> Re (quad_form (S ?b) v)" for v
    using assms(4) by (simp_all add: psd3_def)
  have w: "weight ?b = \<bar>Re ?tp\<bar>" and wf: "weight_full ?b = \<bar>Re (trace (S ?b))\<bar>"
    using assms(1) by (simp_all add: CalcIntensities_weights)
  have "Re ?tp = (\<Sum>i<3. Re (quad_form (S ?b) (\<lambda>a. elem ?P a i)))"
    using trace_projected_quad [OF assms(2) sz] by simp
  then have lower: "0 \<le> Re ?tp"
    using pos by (simp add: sum_nonneg)
  have "Re ?tp = Re (trace (S ?b)) - Re (quad_form (S ?b) (unit_dir Q_rlu))"
    using trace_projected [OF assms(2,3) sz] by simp
  then have upper: "Re ?tp \<le> Re (trace (S ?b))"
    using pos [of "unit_dir Q_rlu"] by simp
  from lower upper show ?thesis
    unfolding w wf by simp
qed

theorem CalcIntensities_weight_le_witness:
  "psd3 (S (CalcIntensities sample_bose sample_parser (sample_magdyn (-1) '''') [0, 0, 1]
             [sample_band unit3] ! 0))
   \<and> weight (CalcIntensities sample_bose sample_parser (sample_magdyn (-1) '''') [0, 0, 1]
             [sample_band unit3] ! 0)
     \<le> weight_full (CalcIntensities sample_bose sample_parser (sample_magdyn (-1) '''') [0, 0, 1]
             [sample_band unit3] ! 0)"
proof -
  have S: "S (CalcIntensities sample_bose sample_parser (sample_magdyn (-1) '''') [0, 0, 1]
             [sample_band unit3] ! 0) = unit3"
    by (simp add: CalcIntensities_nth intensity_step_S bose_step_def formfactor_step_def
        sample_magdyn_def sample_band_def)
  have n: "norm_real [0, 0, 1] \<noteq> 0"
    by (simp add: norm_real_def inner_real_def upt3)
  show ?thesis
    using CalcIntensities_weight_le [of 0 "[sample_band unit3]" "[0, 0, 1]" sample_bose
        sample_parser "sample_magdyn (-1) ''''"] n psd3_unit3 S
    by simp
qed

text \<open>
  For a tensor that is Hermitian but not positive semi-definite the projection can
  increase the weight: with \<open>S = diag(1, -1, 0)\<close> and \<open>Q = (0, 1, 0)\<close>, no Bose factor
  and no form factor, \<^verbatim>\<open>weight\<close> is 1 and \<^verbatim>\<open>weight_full\<close> is 0.
\<close>

theorem CalcIntensities_weight_counterexample:
  "herm indef3 = indef3
   \<and> weight (CalcIntensities sample_bose sample_parser (sample_magdyn (-1) '''') [0, 1, 0]
             [sample_band indef3] ! 0) = 1
   \<and> weight_full (CalcIntensities sample_bose sample_parser (sample_magdyn (-1) '''') [0, 1, 0]
             [sample_band indef3] ! 0) = 0"
proof -
  have S: "S (CalcIntensities sample_bose sample_parser (sample_magdyn (-1) '''') [0, 1, 0]
             [sample_band indef3] ! 0) = indef3"
    by (simp add: CalcIntensities_nth intensity_step_S bose_step_def formfactor_step_def
        sample_magdyn_def sample_band_def)
  have h: "herm indef3 = indef3"
    by (auto simp: herm_def indef3_def fun_eq_iff)
  have n: "norm_real [0, 1, 0] = 1"
    by (simp add: norm_real_def inner_real_def upt3)
  have tr: "trace indef3 = 0"
    by (simp add: trace_sum indef3_def sum3)
  have trp: "trace (mat_mul (mat_mul (ortho_projector [0, 1, 0] False) indef3)
               (ortho_projector [0, 1, 0] False)) = 1"
    by (simp add: trace_sum elem_mat_mul ortho_projector_simps unit_dir_def n indef3_def sum3)
  show ?thesis
    using h tr trp
    by (simp add: CalcIntensities_weights S)
qed

subsection \<open>Energies of CalcCorrelationsFromHamiltonian\<close>

text \<open>
  C9: with no magnetic site the function returns at once: the band list is the one the
  caller provided, unchanged, and nothing is written to the error channel.
\<close>

theorem CalcCorrelations_no_sites:
  assumes "GetMagneticSitesCount md = 0"
  shows "CalcCorrelationsFromHamiltonian tl2_inv md bands H_mat chol_mat g_sign Qvec evecs
         = (bands, [])"
  using assms by (simp add: CalcCorrelationsFromHamiltonian_def)

theorem CalcCorrelations_no_sites_witness:
  "GetMagneticSitesCount (sample_magdyn (- 1) []) = 0
   \<and> CalcCorrelationsFromHamiltonian inv2 (sample_magdyn (- 1) []) [energy_band 3, energy_band 7]
       (mat2 1 0 0 1) (mat2 1 0 0 1) (mat2 1 0 0 (- 1)) [0, 0, 0] [[1, 0], [0, 1]]
     = ([energy_band 3, energy_band 7], [])"
proof -
  have n: "GetMagneticSitesCount (sample_magdyn (- 1) []) = 0"
    by (simp add: GetMagneticSitesCount_def sample_magdyn_def)
  from n CalcCorrelations_no_sites [OF n] show ?thesis by simp
qed

text \<open>
  C1: for well-formed arguments (at least one site) the function returns \<open>2N\<close> bands, and
  the energy \<^verbatim>\<open>E\<close> of band \<open>i\<close> is the real part of the diagonal element \<open>(i, i)\<close> of
  \<open>V\<^sup>\<dagger> H V\<close>, where the columns of \<open>V\<close> are the eigenvectors in the sorted order; that
  element is \<open>v\<^sup>\<dagger> H v\<close> for the eigenvector \<open>v\<close> that the sorting puts in place \<open>i\<close>. The
  energies are the same for every sign matrix.
\<close>

theorem CalcCorrelations_energies:
  assumes "wf_input tl2_inv md bands H_mat chol_mat g_sign Qvec evecs"
  shows "length (fst (CalcCorrelationsFromHamiltonian tl2_inv md bands H_mat chol_mat g_sign
                   Qvec evecs)) = 2 * length (sites md)
       \<and> (\<forall>i<2 * length (sites md).
            E (fst (CalcCorrelationsFromHamiltonian tl2_inv md bands H_mat chol_mat g_sign
                     Qvec evecs) ! i)
              = Re (elem (mat_mul (mat_mul (herm (evec_mat_of bands evecs)) H_mat)
                                  (evec_mat_of bands evecs)) i i)
            \<and> elem (mat_mul (mat_mul (herm (evec_mat_of bands evecs)) H_mat)
                                  (evec_mat_of bands evecs)) i i
              = expectation H_mat (evecs ! (sorting_of bands ! i)))
       \<and> (\<forall>g'. map E (fst (CalcCorrelationsFromHamiltonian tl2_inv md bands H_mat chol_mat g'
                              Qvec evecs))
               = map E (fst (CalcCorrelationsFromHamiltonian tl2_inv md bands H_mat chol_mat
                              g_sign Qvec evecs)))"
proof -
  note sz = wf_size [OF assms]
  note B = CalcCorrelations_bands [OF sz(2) refl]
  have "map E (fst (CalcCorrelationsFromHamiltonian tl2_inv md bands H_mat chol_mat g'
                              Qvec evecs))
               = map E (fst (CalcCorrelationsFromHamiltonian tl2_inv md bands H_mat chol_mat
                              g_sign Qvec evecs))" for g'
    by (rule nth_equalityI) (simp_all add: B(1,2))
  moreover have "length (fst (CalcCorrelationsFromHamiltonian tl2_inv md bands H_mat chol_mat
                   g_sign Qvec evecs)) = 2 * length (sites md)"
    by (simp add: B(1) sz(1))
  moreover have "E (fst (CalcCorrelationsFromHamiltonian tl2_inv md bands H_mat chol_mat g_sign
                     Qvec evecs) ! i)
              = Re (elem (mat_mul (mat_mul (herm (evec_mat_of bands evecs)) H_mat)
                                  (evec_mat_of bands evecs)) i i)
            \<and> elem (mat_mul (mat_mul (herm (evec_mat_of bands evecs)) H_mat)
                                  (evec_mat_of bands evecs)) i i
              = expectation H_mat (evecs ! (sorting_of bands ! i))"
    if "i < 2 * length (sites md)" for i
    using that B(2) sz(1) energy_mat_diag [OF assms that]
    by (simp add: energy_mat_of_def)
  ultimately show ?thesis by blast
qed

theorem CalcCorrelations_energies_witness:
  "map E (fst (CalcCorrelationsFromHamiltonian inv2 sample_lattice
                 [energy_band (- 1), energy_band 1] (mat2 1 0 0 (- 1)) (mat2 2 0 0 2)
                 (mat2 1 0 0 (- 1)) [0, 0, 0] [[0, 1], [1, 0]])) = [1, - 1]"
proof -
  let ?out = "fst (CalcCorrelationsFromHamiltonian inv2 sample_lattice
                 [energy_band (- 1), energy_band 1] (mat2 1 0 0 (- 1)) (mat2 2 0 0 2)
                 (mat2 1 0 0 (- 1)) [0, 0, 0] [[0, 1], [1, 0]])"
  have wf: "wf_input inv2 sample_lattice [energy_band (- 1), energy_band 1]
      (mat2 1 0 0 (- 1)) (mat2 2 0 0 2) (mat2 1 0 0 (- 1)) [0, 0, 0] [[0, 1], [1, 0]]"
    by (rule sample_wf) (simp_all add: mat2_def)
  note T = CalcCorrelations_energies [OF wf]
  have N: "length (sites sample_lattice) = 1"
    by (simp add: sample_lattice_def)
  have len: "length ?out = 2" using T N by simp
  have "E (?out ! 0) = 1" "E (?out ! 1) = - 1"
    using T N by (simp_all add: sample_sorting expectation_def sum2 mat2_def)
  with len show ?thesis
    by (auto simp: list_eq_iff_nth_eq less_Suc_eq eval_nat_numeral)
qed

subsection \<open>Failure of the inversion\<close>



subsection \<open>Order of the returned bands\<close>

lemma sorting_of_sorted:
  "sorted_wrt (\<lambda>a b. E (bands ! a) \<ge> E (bands ! b)) (sorting_of bands)"
  unfolding sorting_of_def
  by (rule get_perm_sorted) auto

text \<open>
  C4 (as amended): for well-formed arguments whose input energies order the eigenvectors
  consistently with \<open>H\<close> (whenever the input energy of band \<open>k\<close> is at least that of band
  \<open>l\<close>, the real part of \<open>v\<^sub>k\<^sup>\<dagger> H v\<^sub>k\<close> is at least that of \<open>v\<^sub>l\<^sup>\<dagger> H v\<^sub>l\<close>), the
  energies of the returned bands are in non-increasing order.
\<close>

theorem CalcCorrelations_sorted:
  assumes "wf_input tl2_inv md bands H_mat chol_mat g_sign Qvec evecs"
    and "order_consistent bands H_mat evecs"
  shows "sorted_wrt (\<ge>) (map E (fst (CalcCorrelationsFromHamiltonian tl2_inv md bands H_mat
                                        chol_mat g_sign Qvec evecs)))"
proof -
  let ?out = "fst (CalcCorrelationsFromHamiltonian tl2_inv md bands H_mat chol_mat g_sign
                    Qvec evecs)"
  let ?n = "2 * length (sites md)"
  let ?p = "sorting_of bands"
  have len: "length ?out = ?n" by (rule wf_energy(1) [OF assms(1)])
  have lb: "length bands = ?n" using assms(1) by (simp add: wf_input_def Let_def)
  have lp: "length ?p = ?n" by (simp add: sorting_of_def get_perm_length lb)
  have En: "E (?out ! i) = Re (expectation H_mat (evecs ! (?p ! i)))" if "i < ?n" for i
    using that by (rule wf_energy(2) [OF assms(1)])
  have "E (?out ! i) \<ge> E (?out ! j)" if "i < j" "j < ?n" for i j
  proof -
    have pi: "?p ! i < length bands" and pj: "?p ! j < length bands"
      using get_perm_less [of i "length bands"] get_perm_less [of j "length bands"] that lb
      by (simp_all add: sorting_of_def)
    have "E (bands ! (?p ! i)) \<ge> E (bands ! (?p ! j))"
      using sorting_of_sorted [of bands] that lp by (simp add: sorted_wrt_iff_nth_less)
    then have "Re (expectation H_mat (evecs ! (?p ! i))) \<ge> Re (expectation H_mat (evecs ! (?p ! j)))"
      using assms(2) pi pj by (simp add: order_consistent_def)
    then show ?thesis using that by (simp add: En)
  qed
  then show ?thesis
    by (simp add: sorted_wrt_iff_nth_less len)
qed

theorem CalcCorrelations_sorted_witness:
  "order_consistent [energy_band (- 1), energy_band 1] (mat2 1 0 0 (- 1)) [[0, 1], [1, 0]]
   \<and> sorted_wrt (\<ge>) (map E (fst (CalcCorrelationsFromHamiltonian inv2 sample_lattice
        [energy_band (- 1), energy_band 1] (mat2 1 0 0 (- 1)) (mat2 2 0 0 2)
        (mat2 1 0 0 (- 1)) [0, 0, 0] [[0, 1], [1, 0]])))"
proof -
  have wf: "wf_input inv2 sample_lattice [energy_band (- 1), energy_band 1]
      (mat2 1 0 0 (- 1)) (mat2 2 0 0 2) (mat2 1 0 0 (- 1)) [0, 0, 0] [[0, 1], [1, 0]]"
    by (rule sample_wf) (simp_all add: mat2_def)
  have oc: "order_consistent [energy_band (- 1), energy_band 1] (mat2 1 0 0 (- 1))
      [[0, 1], [1, 0]]"
    by (simp add: order_consistent_def expectation_def sum2 mat2_def energy_band_def
        less_Suc_eq eval_nat_numeral all_conj_distrib)
  from oc CalcCorrelations_sorted [OF wf oc] show ?thesis by simp
qed

text \<open>
  Without that relation between the input energies and \<open>H\<close> the output need not be
  ordered: with input energies 5 and 3 for the eigenvectors \<open>(1, 0)\<close> and \<open>(0, 1)\<close> of
  \<open>H = diag(1, 2)\<close> the returned energies are 1 and then 2.
\<close>

theorem CalcCorrelations_sorted_counterexample:
  "wf_input inv2 sample_lattice [energy_band 5, energy_band 3]
      (mat2 1 0 0 2) (mat2 1 0 0 1) (mat2 1 0 0 (- 1)) [0, 0, 0] [[1, 0], [0, 1]]
   \<and> E (fst (CalcCorrelationsFromHamiltonian inv2 sample_lattice
        [energy_band 5, energy_band 3] (mat2 1 0 0 2) (mat2 1 0 0 1)
        (mat2 1 0 0 (- 1)) [0, 0, 0] [[1, 0], [0, 1]]) ! 0) = 1
   \<and> E (fst (CalcCorrelationsFromHamiltonian inv2 sample_lattice
        [energy_band 5, energy_band 3] (mat2 1 0 0 2) (mat2 1 0 0 1)
        (mat2 1 0 0 (- 1)) [0, 0, 0] [[1, 0], [0, 1]]) ! 1) = 2"
proof -
  have wf: "wf_input inv2 sample_lattice [energy_band 5, energy_band 3]
      (mat2 1 0 0 2) (mat2 1 0 0 1) (mat2 1 0 0 (- 1)) [0, 0, 0] [[1, 0], [0, 1]]"
    by (rule sample_wf) (simp_all add: mat2_def)
  show ?thesis
    using wf wf_energy(2) [OF wf, of 0] wf_energy(2) [OF wf, of 1]
    by (simp add: sample_sites sample_sorting expectation_def sum2 mat2_def)
qed

subsection \<open>The correlation tensor\<close>

lemma trafo_size:
  assumes "wf_input tl2_inv md bands H_mat chol_mat g_sign Qvec evecs"
  shows "size1 (trafo_of tl2_inv bands H_mat chol_mat g_sign evecs) = 2 * length (sites md)"
    and "size2 (trafo_of tl2_inv bands H_mat chol_mat g_sign evecs) = 2 * length (sites md)"
  using assms evec_mat_size [OF assms]
  by (simp_all add: trafo_of_def energy_mat_of_def wf_input_def Let_def)

lemma coupling_matrix_quadrants:
  assumes "i < length (sites md)" "j < length (sites md)"
  shows "elem (coupling_matrix md Qvec x y) i j =
           pair_prefactor md Qvec i j * ge_trafo_plane_calc (sites md ! i) ! x
             * ge_trafo_plane_conj_calc (sites md ! j) ! y"
    and "elem (coupling_matrix md Qvec x y) i (length (sites md) + j) =
           pair_prefactor md Qvec i j * ge_trafo_plane_calc (sites md ! i) ! x
             * ge_trafo_plane_calc (sites md ! j) ! y"
    and "elem (coupling_matrix md Qvec x y) (length (sites md) + i) j =
           pair_prefactor md Qvec i j * ge_trafo_plane_conj_calc (sites md ! i) ! x
             * ge_trafo_plane_conj_calc (sites md ! j) ! y"
    and "elem (coupling_matrix md Qvec x y) (length (sites md) + i) (length (sites md) + j) =
           pair_prefactor md Qvec i j * ge_trafo_plane_conj_calc (sites md ! i) ! x
             * ge_trafo_plane_calc (sites md ! j) ! y"
  using assms by (simp_all add: coupling_matrix_elem Let_def)

text \<open>
  C2: for well-formed arguments and Cartesian indices \<open>x, y < 3\<close>, the matrix \<open>M\<close> that
  the function builds is \<open>2N\<close> by \<open>2N\<close>; for every site pair \<open>(i, j)\<close> its upper-left,
  upper-right, lower-left and lower-right quadrants hold the pre-factor (phase times
  \<open>sqrt(S_i S_j)\<close>) times \<open>u_i[x] u*_j[y]\<close>, \<open>u_i[x] u_j[y]\<close>, \<open>u*_i[x] u*_j[y]\<close> and
  \<open>u*_i[x] u_j[y]\<close>; and for every band \<open>k\<close> the entry \<open>(x, y)\<close> of the returned tensor
  \<^verbatim>\<open>S\<close>, which starts at zero, is the diagonal element \<open>(k, k)\<close> of \<open>T\<^sup>\<dagger> M T\<close> divided
  by \<open>2N\<close>, where \<open>T\<close> is the product of the returned inverse, \<open>V\<close> and \<^verbatim>\<open>E_sqrt\<close>.
\<close>

theorem CalcCorrelations_tensor:
  assumes "wf_input tl2_inv md bands H_mat chol_mat g_sign Qvec evecs"
    and "x < 3" and "y < 3"
  shows "(\<forall>i<length (sites md). \<forall>j<length (sites md).
            elem (coupling_matrix md Qvec x y) i j =
              pair_prefactor md Qvec i j * ge_trafo_plane_calc (sites md ! i) ! x
                * ge_trafo_plane_conj_calc (sites md ! j) ! y
          \<and> elem (coupling_matrix md Qvec x y) i (length (sites md) + j) =
              pair_prefactor md Qvec i j * ge_trafo_plane_calc (sites md ! i) ! x
                * ge_trafo_plane_calc (sites md ! j) ! y
          \<and> elem (coupling_matrix md Qvec x y) (length (sites md) + i) j =
              pair_prefactor md Qvec i j * ge_trafo_plane_conj_calc (sites md ! i) ! x
                * ge_trafo_plane_conj_calc (sites md ! j) ! y
          \<and> elem (coupling_matrix md Qvec x y) (length (sites md) + i) (length (sites md) + j) =
              pair_prefactor md Qvec i j * ge_trafo_plane_conj_calc (sites md ! i) ! x
                * ge_trafo_plane_calc (sites md ! j) ! y)
       \<and> size1 (coupling_matrix md Qvec x y) = 2 * length (sites md)
       \<and> size2 (coupling_matrix md Qvec x y) = 2 * length (sites md)
       \<and> (\<forall>k<2 * length (sites md).
            elem (S (fst (CalcCorrelationsFromHamiltonian tl2_inv md bands H_mat chol_mat g_sign
                           Qvec evecs) ! k)) x y
            = elem (mat_mul (mat_mul (herm (trafo_of tl2_inv bands H_mat chol_mat g_sign evecs))
                                     (coupling_matrix md Qvec x y))
                            (trafo_of tl2_inv bands H_mat chol_mat g_sign evecs)) k k
              / complex_of_real (real (2 * length (sites md))))"
proof -
  note sz = wf_size [OF assms(1)]
  have "elem (S (fst (CalcCorrelationsFromHamiltonian tl2_inv md bands H_mat chol_mat g_sign
                           Qvec evecs) ! k)) x y
            = elem (mat_mul (mat_mul (herm (trafo_of tl2_inv bands H_mat chol_mat g_sign evecs))
                                     (coupling_matrix md Qvec x y))
                            (trafo_of tl2_inv bands H_mat chol_mat g_sign evecs)) k k
              / complex_of_real (real (2 * length (sites md)))"
    if "k < 2 * length (sites md)" for k
    using CalcCorrelations_bands(4) [OF sz(2) refl, of k bands H_mat evecs x y tl2_inv chol_mat
        g_sign Qvec] that assms(2,3) sz(1)
    by (simp add: M_trafo_of_def)
  then show ?thesis
    by (simp add: coupling_matrix_quadrants)
qed

theorem CalcCorrelations_tensor_witness:
  "elem (S (fst (CalcCorrelationsFromHamiltonian inv2 sample_lattice
        [energy_band (- 1), energy_band 1] (mat2 1 0 0 (- 1)) (mat2 2 0 0 2)
        (mat2 1 0 0 (- 1)) [0, 0, 0] [[0, 1], [1, 0]]) ! 0)) 0 1 = - \<i> / 8"
proof -
  let ?T = "trafo_of inv2 [energy_band (- 1), energy_band 1] (mat2 1 0 0 (- 1))
              (mat2 2 0 0 2) (mat2 1 0 0 (- 1)) [[0, 1], [1, 0]]"
  have wf: "wf_input inv2 sample_lattice [energy_band (- 1), energy_band 1]
      (mat2 1 0 0 (- 1)) (mat2 2 0 0 2) (mat2 1 0 0 (- 1)) [0, 0, 0] [[0, 1], [1, 0]]"
    by (rule sample_wf) (simp_all add: mat2_def)
  have T0: "elem ?T a b = (if a = b then 1 / 2 else 0)" if "a < 2" "b < 2" for a b
    using that
    by (auto simp add: trafo_of_def energy_mat_of_def elem_mat_mul sum2 sample_evec_mat
        inv2_def mat2_def less_Suc_eq eval_nat_numeral)
  have M: "elem (mat_mul (mat_mul (herm ?T) (coupling_matrix sample_lattice [0, 0, 0] 0 1)) ?T)
             0 0 = - \<i> / 4"
    by (simp add: elem_mat_mul sum2 sample_coupling trafo_size [OF wf] sample_sites T0)
  note T = CalcCorrelations_tensor [OF wf, of 0 1]
  from T [THEN conjunct2, THEN conjunct2, THEN conjunct2, rule_format, of 0] M
  have "elem (S (fst (CalcCorrelationsFromHamiltonian inv2 sample_lattice
        [energy_band (- 1), energy_band 1] (mat2 1 0 0 (- 1)) (mat2 2 0 0 2)
        (mat2 1 0 0 (- 1)) [0, 0, 0] [[0, 1], [1, 0]]) ! 0)) 0 1 * 2 = - (\<i> / 4)"
    by (simp add: sample_sites)
  then show ?thesis
    by (simp add: field_simps)
qed

subsection \<open>Sum over the bands\<close>

lemma sandwich_trace:
  assumes "size1 T = n" "size2 T = n" "size1 M = n" "size2 M = n"
  shows "(\<Sum>k<n. elem (mat_mul (mat_mul (herm T) M) T) k k)
         = trace (mat_mul M (mat_mul T (herm T)))"
proof -
  have "(\<Sum>k<n. elem (mat_mul (mat_mul (herm T) M) T) k k)
        = (\<Sum>k<n. \<Sum>b<n. \<Sum>a<n. cnj (elem T a k) * elem M a b * elem T b k)"
    using assms by (simp add: elem_mat_mul sum_distrib_right)
  also have "\<dots> = (\<Sum>k<n. \<Sum>a<n. \<Sum>b<n. cnj (elem T a k) * elem M a b * elem T b k)"
    by (rule sum.cong [OF refl]) (rule sum.swap)
  also have "\<dots> = (\<Sum>a<n. \<Sum>k<n. \<Sum>b<n. cnj (elem T a k) * elem M a b * elem T b k)"
    by (rule sum.swap)
  also have "\<dots> = (\<Sum>a<n. \<Sum>b<n. \<Sum>k<n. cnj (elem T a k) * elem M a b * elem T b k)"
    by (rule sum.cong [OF refl]) (rule sum.swap)
  also have "\<dots> = (\<Sum>a<n. \<Sum>b<n. elem M a b * (\<Sum>k<n. elem T b k * cnj (elem T a k)))"
    by (simp add: sum_distrib_left mult_ac)
  also have "\<dots> = trace (mat_mul M (mat_mul T (herm T)))"
    using assms by (simp add: trace_sum elem_mat_mul)
  finally show ?thesis .
qed

lemma unitary_trace:
  assumes "unitary n T" "size1 M = n" "size2 M = n"
  shows "trace (mat_mul M (mat_mul T (herm T))) = trace M"
proof -
  have "trace (mat_mul M (mat_mul T (herm T)))
        = (\<Sum>a<n. \<Sum>b<n. elem M a b * elem (mat_mul T (herm T)) b a)"
    using assms(2,3) by (simp add: trace_sum mat_mul_def interv_sum_list_conv_sum_set_nat
        atLeast0LessThan)
  also have "\<dots> = (\<Sum>a<n. \<Sum>b<n. elem M a b * (if b = a then 1 else 0))"
    using assms(1) by (simp add: unitary_def)
  also have "\<dots> = (\<Sum>a<n. elem M a a)"
    by (simp add: sum.delta' if_distrib [of "\<lambda>z. _ * z"] cong: if_cong)
  finally show ?thesis
    using assms(2) by (simp add: trace_sum)
qed

text \<open>
  C3 (as amended): for well-formed arguments and \<open>x, y < 3\<close>, the contributions to
  \<open>S(x, y)\<close> summed over all \<open>2N\<close> bands equal \<open>trace(M T T\<^sup>\<dagger>) / (2N)\<close>; they equal
  \<open>trace(M) / (2N)\<close> when \<open>T\<close> is unitary (\<open>T T\<^sup>\<dagger> = 1\<close>).
\<close>

theorem CalcCorrelations_sum_rule:
  assumes "wf_input tl2_inv md bands H_mat chol_mat g_sign Qvec evecs"
    and "x < 3" and "y < 3"
  shows "(\<Sum>k<2 * length (sites md).
            elem (S (fst (CalcCorrelationsFromHamiltonian tl2_inv md bands H_mat chol_mat g_sign
                           Qvec evecs) ! k)) x y)
         = trace (mat_mul (coupling_matrix md Qvec x y)
                    (mat_mul (trafo_of tl2_inv bands H_mat chol_mat g_sign evecs)
                             (herm (trafo_of tl2_inv bands H_mat chol_mat g_sign evecs))))
           / complex_of_real (real (2 * length (sites md)))
       \<and> (unitary (2 * length (sites md)) (trafo_of tl2_inv bands H_mat chol_mat g_sign evecs)
          \<longrightarrow>
          (\<Sum>k<2 * length (sites md).
            elem (S (fst (CalcCorrelationsFromHamiltonian tl2_inv md bands H_mat chol_mat g_sign
                           Qvec evecs) ! k)) x y)
          = trace (coupling_matrix md Qvec x y) / complex_of_real (real (2 * length (sites md))))"
proof -
  let ?n = "2 * length (sites md)"
  let ?T = "trafo_of tl2_inv bands H_mat chol_mat g_sign evecs"
  let ?M = "coupling_matrix md Qvec x y"
  let ?out = "fst (CalcCorrelationsFromHamiltonian tl2_inv md bands H_mat chol_mat g_sign
                           Qvec evecs)"
  note sz = wf_size [OF assms(1)]
  have S: "elem (S (?out ! k)) x y
           = elem (mat_mul (mat_mul (herm ?T) ?M) ?T) k k / complex_of_real (real ?n)"
    if "k < ?n" for k
    using CalcCorrelations_bands(4) [OF sz(2) refl, of k bands H_mat evecs x y tl2_inv chol_mat
        g_sign Qvec] that assms(2,3) sz(1)
    by (simp add: M_trafo_of_def)
  have "(\<Sum>k<?n. elem (S (?out ! k)) x y)
        = (\<Sum>k<?n. elem (mat_mul (mat_mul (herm ?T) ?M) ?T) k k / complex_of_real (real ?n))"
    by (rule sum.cong) (simp_all add: S)
  also have "\<dots> = (\<Sum>k<?n. elem (mat_mul (mat_mul (herm ?T) ?M) ?T) k k)
                    / complex_of_real (real ?n)"
    by (simp add: sum_divide_distrib)
  also have "(\<Sum>k<?n. elem (mat_mul (mat_mul (herm ?T) ?M) ?T) k k)
             = trace (mat_mul ?M (mat_mul ?T (herm ?T)))"
    by (rule sandwich_trace) (simp_all add: trafo_size [OF assms(1)])
  finally have main: "(\<Sum>k<?n. elem (S (?out ! k)) x y)
        = trace (mat_mul ?M (mat_mul ?T (herm ?T))) / complex_of_real (real ?n)" .
  moreover have "trace (mat_mul ?M (mat_mul ?T (herm ?T))) = trace ?M" if "unitary ?n ?T"
    using that by (rule unitary_trace) simp_all
  ultimately show ?thesis by simp
qed

theorem CalcCorrelations_sum_rule_witness:
  "unitary 2 (trafo_of inv2 [energy_band (- 1), energy_band 1] (mat2 1 0 0 (- 1))
                (mat2 1 0 0 1) (mat2 1 0 0 (- 1)) [[0, 1], [1, 0]])
   \<and> (\<Sum>k<2. elem (S (fst (CalcCorrelationsFromHamiltonian inv2 sample_lattice
        [energy_band (- 1), energy_band 1] (mat2 1 0 0 (- 1)) (mat2 1 0 0 1)
        (mat2 1 0 0 (- 1)) [0, 0, 0] [[0, 1], [1, 0]]) ! k)) 0 0) = 1"
proof -
  let ?T = "trafo_of inv2 [energy_band (- 1), energy_band 1] (mat2 1 0 0 (- 1))
              (mat2 1 0 0 1) (mat2 1 0 0 (- 1)) [[0, 1], [1, 0]]"
  have wf: "wf_input inv2 sample_lattice [energy_band (- 1), energy_band 1]
      (mat2 1 0 0 (- 1)) (mat2 1 0 0 1) (mat2 1 0 0 (- 1)) [0, 0, 0] [[0, 1], [1, 0]]"
    by (rule sample_wf) (simp_all add: mat2_def)
  have T0: "elem ?T a b = (if a = b then 1 else 0)" if "a < 2" "b < 2" for a b
    using that
    by (auto simp add: trafo_of_def energy_mat_of_def elem_mat_mul sum2 sample_evec_mat
        inv2_def mat2_def less_Suc_eq eval_nat_numeral)
  have U: "unitary 2 ?T"
    using trafo_size [OF wf]
    by (auto simp add: unitary_def elem_mat_mul sum2 T0 sample_sites)
  have tr: "trace (coupling_matrix sample_lattice [0, 0, 0] 0 0) = 2"
    by (simp add: trace_sum sum2 sample_coupling sample_sites)
  from U tr CalcCorrelations_sum_rule [OF wf, of 0 0, THEN conjunct2] show ?thesis
    by (simp add: sample_sites)
qed

text \<open>
  That \<open>T\<^sup>\<dagger> H T\<close> is the diagonal matrix of the energies does not make \<open>T\<close> unitary. For
  one site, \<open>H = g = diag(1, -1)\<close>, unit eigenvectors and the Cholesky factor with rows
  \<open>(5/3, -4/3)\<close> and \<open>(-4/3, 5/3)\<close>, the transformation \<open>T\<close> has rows \<open>(5/3, 4/3)\<close> and
  \<open>(4/3, 5/3)\<close>: \<open>T\<^sup>\<dagger> H T = diag(1, -1)\<close> holds the returned energies 1 and -1, yet the
  contributions to \<open>S(0, 0)\<close> sum to 9 while \<open>trace(M) / 2 = 1\<close>.
\<close>

theorem CalcCorrelations_sum_rule_counterexample:
  "wf_input inv2 sample_lattice [energy_band 1, energy_band (- 1)] (mat2 1 0 0 (- 1))
      boost_chol (mat2 1 0 0 (- 1)) [0, 0, 0] [[1, 0], [0, 1]]
   \<and> map (\<lambda>k. E (fst (CalcCorrelationsFromHamiltonian inv2 sample_lattice
              [energy_band 1, energy_band (- 1)] (mat2 1 0 0 (- 1)) boost_chol
              (mat2 1 0 0 (- 1)) [0, 0, 0] [[1, 0], [0, 1]]) ! k)) [0, 1] = [1, - 1]
   \<and> map (\<lambda>(a, b). elem (mat_mul (mat_mul
            (herm (trafo_of inv2 [energy_band 1, energy_band (- 1)] (mat2 1 0 0 (- 1))
                     boost_chol (mat2 1 0 0 (- 1)) [[1, 0], [0, 1]]))
            (mat2 1 0 0 (- 1)))
            (trafo_of inv2 [energy_band 1, energy_band (- 1)] (mat2 1 0 0 (- 1))
                     boost_chol (mat2 1 0 0 (- 1)) [[1, 0], [0, 1]])) a b)
        [(0, 0), (0, 1), (1, 0), (1, 1)] = [1, 0, 0, - 1]
   \<and> (\<Sum>k<2. elem (S (fst (CalcCorrelationsFromHamiltonian inv2 sample_lattice
              [energy_band 1, energy_band (- 1)] (mat2 1 0 0 (- 1)) boost_chol
              (mat2 1 0 0 (- 1)) [0, 0, 0] [[1, 0], [0, 1]]) ! k)) 0 0) = 9
   \<and> trace (coupling_matrix sample_lattice [0, 0, 0] 0 0) / 2 = 1"
proof -
  let ?T = "trafo_of inv2 [energy_band 1, energy_band (- 1)] (mat2 1 0 0 (- 1))
                     boost_chol (mat2 1 0 0 (- 1)) [[1, 0], [0, 1]]"
  have wf: "wf_input inv2 sample_lattice [energy_band 1, energy_band (- 1)] (mat2 1 0 0 (- 1))
      boost_chol (mat2 1 0 0 (- 1)) [0, 0, 0] [[1, 0], [0, 1]]"
    by (rule sample_wf) (simp_all add: boost_chol_def mat2_def)
  have T0: "elem ?T a b = (if a = b then 5 / 3 else 4 / 3)" if "a < 2" "b < 2" for a b
    using that
    by (auto simp add: trafo_of_def energy_mat_of_def elem_mat_mul sum2 sample_evec_mat
        inv2_def boost_chol_def mat2_def less_Suc_eq eval_nat_numeral)
  have En: "E (fst (CalcCorrelationsFromHamiltonian inv2 sample_lattice
              [energy_band 1, energy_band (- 1)] (mat2 1 0 0 (- 1)) boost_chol
              (mat2 1 0 0 (- 1)) [0, 0, 0] [[1, 0], [0, 1]]) ! 0) = 1"
     "E (fst (CalcCorrelationsFromHamiltonian inv2 sample_lattice
              [energy_band 1, energy_band (- 1)] (mat2 1 0 0 (- 1)) boost_chol
              (mat2 1 0 0 (- 1)) [0, 0, 0] [[1, 0], [0, 1]]) ! 1) = - 1"
    using wf_energy(2) [OF wf, of 0] wf_energy(2) [OF wf, of 1]
    by (simp_all add: sample_sites sample_sorting expectation_def sum2 mat2_def)
  have D: "elem (mat_mul (mat_mul (herm ?T) (mat2 1 0 0 (- 1))) ?T) 0 0 = 1"
    "elem (mat_mul (mat_mul (herm ?T) (mat2 1 0 0 (- 1))) ?T) 0 1 = 0"
    "elem (mat_mul (mat_mul (herm ?T) (mat2 1 0 0 (- 1))) ?T) 1 0 = 0"
    "elem (mat_mul (mat_mul (herm ?T) (mat2 1 0 0 (- 1))) ?T) 1 1 = - 1"
    by (simp_all add: elem_mat_mul sum2 trafo_size [OF wf] sample_sites T0 mat2_simps)
  have Ssum: "(\<Sum>k<2. elem (S (fst (CalcCorrelationsFromHamiltonian inv2 sample_lattice
              [energy_band 1, energy_band (- 1)] (mat2 1 0 0 (- 1)) boost_chol
              (mat2 1 0 0 (- 1)) [0, 0, 0] [[1, 0], [0, 1]]) ! k)) 0 0) = 9"
    by (simp add: sum2 sample_tensor [OF wf] elem_mat_mul trafo_size [OF wf] sample_sites
        sample_coupling T0)
  have tr: "trace (coupling_matrix sample_lattice [0, 0, 0] 0 0) / 2 = 1"
    by (simp add: trace_sum sum2 sample_coupling sample_sites)
  from wf En D Ssum tr show ?thesis by simp
qed

end
